theory Spec2Isabelle
  imports Complex_Main
begin

section \<open>Decoding the YOLOv2 network output (model/YOLOv2.py, \<open>YOLOv2.predict\<close>)\<close>

text \<open>
  The embedding follows \<open>YOLOv2.predict\<close> from line 79 on, that is from the reshaped
  five-dimensional tensor \<open>prediction\<close> of shape \<open>[1, GRID_H, GRID_W, N_ANCHORS, N_CLASSES + 5]\<close>.
  The network itself, the image preprocessing and the module \<open>cfg\<close> are collaborators:
  the constants of \<open>cfg\<close> (\<open>N_ANCHORS\<close>, \<open>N_CLASSES\<close>, \<open>ANCHORS\<close>, \<open>HIER_TREE\<close>) are taken as
  a configuration record.

  Numbers: the tensors hold float32 values; they are modelled by exact reals, so rounding,
  overflow to infinity and NaN are outside the model. Class ids are Python integers (\<open>int\<close>).
\<close>

subsection \<open>Data\<close>

datatype error =
    ValueError string
  | IOError string
  | KeyError string
  | IndexError
  | UnboundLocalError
  | InvalidArgumentError
  | ParserError

text \<open>A node of the class hierarchy: its id and its ordered children.\<close>

datatype node = Node (node_id: int) (children: "node list")

record cfg =
  N_ANCHORS :: nat
  N_CLASSES :: nat
  ANCHORS :: "(real \<times> real) list"
  HIER_TREE :: node

text \<open>
  The tensor \<open>prediction\<close> after the reshape of line 77, batch size one:
  \<open>netout p i j k c\<close> is \<open>prediction[0, i, j, k, c]\<close>.
\<close>

record prediction =
  GRID_H :: nat
  GRID_W :: nat
  netout :: "nat \<Rightarrow> nat \<Rightarrow> nat \<Rightarrow> nat \<Rightarrow> real"

text \<open>A row of the tensor \<open>boxes\<close>: the four numbers in the order the code stores them.\<close>

type_synonym box = "real \<times> real \<times> real \<times> real"

subsection \<open>Elementwise functions\<close>

definition sigmoid :: "real \<Rightarrow> real" where
  "sigmoid x = 1 / (1 + exp (- x))"

definition softmax :: "real list \<Rightarrow> real list" where
  "softmax xs = map (\<lambda>x. exp x / sum_list (map exp xs)) xs"

text \<open>Python's \<open>xs[a:b]\<close> on a sequence: negative bounds count from the end, both are clamped.\<close>

definition py_slice :: "'a list \<Rightarrow> int \<Rightarrow> int \<Rightarrow> 'a list" where
  "py_slice xs a b =
     (let n = int (length xs);
          lo = (if a < 0 then max 0 (a + n) else min a n);
          hi = (if b < 0 then max 0 (b + n) else min b n)
      in take (nat (hi - lo)) (drop (nat lo) xs))"

subsection \<open>The grid-cell map (lines 82 to 96)\<close>

definition arange :: "nat \<Rightarrow> real list" where
  "arange n = map real [0..<n]"

text \<open>
  \<open>cx\<close>: \<open>arange(GRID_W)\<close> tiled \<open>GRID_H\<close> times and reshaped to \<open>[1, GRID_H, GRID_W, 1]\<close>;
  the entry at row \<open>i\<close>, column \<open>j\<close> is element \<open>i * GRID_W + j\<close> of the flat buffer.
\<close>

definition cx :: "nat \<Rightarrow> nat \<Rightarrow> nat \<Rightarrow> nat \<Rightarrow> real" where
  "cx H W i j = concat (replicate H (arange W)) ! (i * W + j)"

text \<open>
  \<open>cy\<close>: \<open>arange(GRID_H)\<close> as a column, tiled \<open>GRID_W\<close> times along the second axis,
  flattened and reshaped to \<open>[1, GRID_H, GRID_W, 1]\<close>.
\<close>

definition cy :: "nat \<Rightarrow> nat \<Rightarrow> nat \<Rightarrow> nat \<Rightarrow> real" where
  "cy H W i j = concat (map (replicate W) (arange H)) ! (i * W + j)"

definition c_xy :: "nat \<Rightarrow> nat \<Rightarrow> nat \<Rightarrow> nat \<Rightarrow> real \<times> real" where
  "c_xy H W i j = (cx H W i j, cy H W i j)"

definition netout_size :: "prediction \<Rightarrow> real \<times> real" where
  "netout_size p = (real (GRID_W p), real (GRID_H p))"

subsection \<open>Box geometry (lines 98 to 110)\<close>

definition box_xy :: "prediction \<Rightarrow> nat \<Rightarrow> nat \<Rightarrow> nat \<Rightarrow> real \<times> real" where
  "box_xy p i j k =
     (let sx = sigmoid (netout p i j k 0); sy = sigmoid (netout p i j k 1);
          (gx, gy) = c_xy (GRID_H p) (GRID_W p) i j;
          (sw, sh) = netout_size p
      in ((sx + gx) / sw, (sy + gy) / sh))"

definition box_wh :: "cfg \<Rightarrow> prediction \<Rightarrow> nat \<Rightarrow> nat \<Rightarrow> nat \<Rightarrow> real \<times> real" where
  "box_wh c p i j k =
     (let ew = exp (netout p i j k 2); eh = exp (netout p i j k 3);
          (aw, ah) = ANCHORS c ! k;
          (sw, sh) = netout_size p
      in (ew * aw / sw, eh * ah / sh))"

definition box_mins :: "cfg \<Rightarrow> prediction \<Rightarrow> nat \<Rightarrow> nat \<Rightarrow> nat \<Rightarrow> real \<times> real" where
  "box_mins c p i j k =
     (let (x, y) = box_xy p i j k; (w, h) = box_wh c p i j k
      in (x - w / 2, y - h / 2))"

definition box_maxes :: "cfg \<Rightarrow> prediction \<Rightarrow> nat \<Rightarrow> nat \<Rightarrow> nat \<Rightarrow> real \<times> real" where
  "box_maxes c p i j k =
     (let (x, y) = box_xy p i j k; (w, h) = box_wh c p i j k
      in (x + w / 2, y + h / 2))"

text \<open>Line 110: the concatenation takes component 1, then 0, of the minima, then of the maxima.\<close>

definition boxes_at :: "cfg \<Rightarrow> prediction \<Rightarrow> nat \<Rightarrow> nat \<Rightarrow> nat \<Rightarrow> box" where
  "boxes_at c p i j k =
     (snd (box_mins c p i j k), fst (box_mins c p i j k),
      snd (box_maxes c p i j k), fst (box_maxes c p i j k))"

definition box_confidence :: "prediction \<Rightarrow> nat \<Rightarrow> nat \<Rightarrow> nat \<Rightarrow> real" where
  "box_confidence p i j k = sigmoid (netout p i j k 4)"

definition box_class_probs :: "cfg \<Rightarrow> prediction \<Rightarrow> nat \<Rightarrow> nat \<Rightarrow> nat \<Rightarrow> real list" where
  "box_class_probs c p i j k = map (netout p i j k) [5..<5 + N_CLASSES c]"

subsection \<open>Class scores (lines 112 to 130)\<close>

text \<open>
  The arithmetic of two tensors whose last axes have lengths \<open>m\<close> and \<open>n\<close> broadcasts
  when \<open>m = n\<close> or one of them is 1, and is refused otherwise.
\<close>

definition broadcast_mul :: "real list \<Rightarrow> real list \<Rightarrow> error + real list" where
  "broadcast_mul xs ys =
     (if length xs = length ys then Inr (map (\<lambda>(x, y). x * y) (zip xs ys))
      else if length xs = 1 then Inr (map (\<lambda>y. hd xs * y) ys)
      else if length ys = 1 then Inr (map (\<lambda>x. x * hd ys) xs)
      else Inl (ValueError ''Dimensions must be equal''))"

text \<open>\<open>n.children[0].id\<close>: an IndexError when the node has no child.\<close>

definition first_child_id :: "node \<Rightarrow> error + int" where
  "first_child_id n = (case children n of [] \<Rightarrow> Inl IndexError | ch # _ \<Rightarrow> Inr (node_id ch))"

text \<open>
  \<open>box_confidence * K.softmax(box_class_probs[..., id:id + len(n.children)])\<close> with
  \<open>id = n.children[0].id\<close>, at one cell and anchor.
\<close>

definition level_scores :: "node \<Rightarrow> real \<Rightarrow> real list \<Rightarrow> error + real list" where
  "level_scores n conf probs =
     (case first_child_id n of
        Inl e \<Rightarrow> Inl e
      | Inr i \<Rightarrow> Inr (map (\<lambda>s. conf * s) (softmax (py_slice probs i (i + int (length (children n)))))))"

text \<open>The body of the loop of mode 2 (lines 124 to 126) for one node.\<close>

definition node_scores :: "real list \<Rightarrow> real list \<Rightarrow> node \<Rightarrow> error + real list" where
  "node_scores parent_scores probs n =
     (case first_child_id n of
        Inl e \<Rightarrow> Inl e
      | Inr i \<Rightarrow>
          broadcast_mul (py_slice parent_scores (node_id n) (node_id n + 1))
            (softmax (py_slice probs i (i + int (length (children n))))))"

text \<open>A loop that appends one result per element and stops at the first exception.\<close>

fun collect :: "('a \<Rightarrow> error + 'b) \<Rightarrow> 'a list \<Rightarrow> error + 'b list" where
  "collect f [] = Inr []"
| "collect f (x # xs) =
     (case f x of
        Inl e \<Rightarrow> Inl e
      | Inr y \<Rightarrow> (case collect f xs of Inl e \<Rightarrow> Inl e | Inr ys \<Rightarrow> Inr (y # ys)))"

text \<open>
  The three \<open>if mode == ...\<close> statements. With any other mode the variable
  \<open>box_scores\<close> is never bound and line 129 raises.
\<close>

definition box_scores :: "int \<Rightarrow> node \<Rightarrow> real \<Rightarrow> real list \<Rightarrow> error + real list" where
  "box_scores mode tree conf probs =
     (if mode = 0 then Inr [conf]
      else if mode = 1 then level_scores tree conf probs
      else if mode = 2 then
        (case level_scores tree conf probs of
           Inl e \<Rightarrow> Inl e
         | Inr parent_scores \<Rightarrow>
             (case collect (node_scores parent_scores probs) (children tree) of
                Inl e \<Rightarrow> Inl e
              | Inr scores \<Rightarrow> Inr (concat scores)))
      else Inl UnboundLocalError)"

text \<open>\<open>K.argmax\<close> along the last axis: the smallest index that holds the maximum.\<close>

fun argmax :: "real list \<Rightarrow> nat" where
  "argmax [] = 0"
| "argmax [x] = 0"
| "argmax (x # y # ys) = (let k = argmax (y # ys) in if (y # ys) ! k \<le> x then 0 else Suc k)"

text \<open>\<open>K.max\<close> along the last axis (the axis is not empty where this is used).\<close>

definition amax :: "real list \<Rightarrow> real" where
  "amax xs = (case xs of [] \<Rightarrow> 0 | x # ys \<Rightarrow> fold max ys x)"

text \<open>
  The positions \<open>(i, j, k)\<close> of the tensor in row-major order, the order in which
  \<open>tf.boolean_mask\<close> flattens the leading axes.
\<close>

definition cells :: "nat \<Rightarrow> nat \<Rightarrow> nat \<Rightarrow> (nat \<times> nat \<times> nat) list" where
  "cells H W A = [(i, j, k). i \<leftarrow> [0..<H], j \<leftarrow> [0..<W], k \<leftarrow> [0..<A]]"

text \<open>
  Lines 79 to 130: the tensors \<open>boxes\<close>, \<open>box_class_scores\<close> and \<open>box_classes\<close>, flattened.
  A tensor with an empty axis does not pass the reshape of line 77 (the \<open>-1\<close> cannot be
  inferred), the anchors must fill the shape \<open>[1, 1, 1, N_ANCHORS, 2]\<close> (line 95), and
  \<open>argmax\<close> along an empty axis is refused when the graph is evaluated.
\<close>

definition decode :: "cfg \<Rightarrow> prediction \<Rightarrow> int \<Rightarrow> error + (box list \<times> real list \<times> int list)" where
  "decode c p mode =
     (if GRID_H p = 0 \<or> GRID_W p = 0 \<or> N_ANCHORS c = 0 then Inl (ValueError ''cannot reshape array'')
      else if length (ANCHORS c) \<noteq> N_ANCHORS c then Inl (ValueError ''Cannot reshape a tensor'')
      else
        (let ijk = cells (GRID_H p) (GRID_W p) (N_ANCHORS c) in
         case collect (\<lambda>(i, j, k). box_scores mode (HIER_TREE c) (box_confidence p i j k)
                                      (box_class_probs c p i j k)) ijk of
           Inl e \<Rightarrow> Inl e
         | Inr scores \<Rightarrow>
             if [] \<in> set scores then Inl InvalidArgumentError
             else Inr (map (\<lambda>(i, j, k). boxes_at c p i j k) ijk,
                       map amax scores,
                       map (\<lambda>s. int (argmax s)) scores)))"

subsection \<open>Score threshold (lines 131 to 135)\<close>

definition prediction_mask :: "real \<Rightarrow> real list \<Rightarrow> bool list" where
  "prediction_mask score_threshold box_class_scores = map (\<lambda>s. score_threshold \<le> s) box_class_scores"

definition boolean_mask :: "'a list \<Rightarrow> bool list \<Rightarrow> 'a list" where
  "boolean_mask xs msk = map fst (filter snd (zip xs msk))"

definition detection_filter ::
  "real \<Rightarrow> box list \<times> real list \<times> int list \<Rightarrow> box list \<times> real list \<times> int list" where
  "detection_filter score_threshold d =
     (case d of (boxes, box_class_scores, box_classes) \<Rightarrow>
        (let msk = prediction_mask score_threshold box_class_scores
         in (boolean_mask boxes msk, boolean_mask box_class_scores msk, boolean_mask box_classes msk)))"

subsection \<open>Scaling to the image (lines 137 to 142)\<close>

text \<open>The image is represented by the first two entries of \<open>img.shape\<close>: height and width.\<close>

definition image_dims :: "nat \<times> nat \<Rightarrow> box" where
  "image_dims shape = (case shape of (height, width) \<Rightarrow> (real height, real width, real height, real width))"

definition scale_box :: "box \<Rightarrow> box \<Rightarrow> box" where
  "scale_box dims b =
     (case (b, dims) of ((a1, a2, a3, a4), (d1, d2, d3, d4)) \<Rightarrow> (a1 * d1, a2 * d2, a3 * d3, a4 * d4))"

definition scale_boxes :: "nat \<times> nat \<Rightarrow> box list \<Rightarrow> box list" where
  "scale_boxes shape boxes = map (scale_box (image_dims shape)) boxes"

subsection \<open>Non-maximum suppression (lines 144 to 147)\<close>

text \<open>
  Modelled from the spec: \<open>tf.image.non_max_suppression\<close> is a routine of the TensorFlow
  library and is not part of the sources. Section 4.4 of the specification describes it:
  sort the candidates by descending score (ties: the lower original index first), repeatedly
  select the best remaining box, emit it and discard the remaining boxes whose
  Intersection-over-Union with it exceeds the threshold, until no candidate remains or the
  number of emitted boxes reaches the cap. The glossary defines the Intersection-over-Union as
  the overlap ratio of two boxes; a pair whose union has no area has ratio 0 here.
\<close>

text \<open>Modelled from the spec: the area of a box \<open>(y1, x1, y2, x2)\<close>.\<close>

definition area :: "box \<Rightarrow> real" where
  "area b = (case b of (y1, x1, y2, x2) \<Rightarrow> (y2 - y1) * (x2 - x1))"

text \<open>Modelled from the spec: the area of the overlap of two boxes, zero when they are apart.\<close>

definition intersection :: "box \<Rightarrow> box \<Rightarrow> real" where
  "intersection a b =
     (case (a, b) of ((ay1, ax1, ay2, ax2), (by1, bx1, by2, bx2)) \<Rightarrow>
        max 0 (min ay2 by2 - max ay1 by1) * max 0 (min ax2 bx2 - max ax1 bx1))"

text \<open>
  Modelled from the spec: the Intersection-over-Union, the overlap divided by the area of
  the union.
\<close>

definition iou :: "box \<Rightarrow> box \<Rightarrow> real" where
  "iou a b =
     (let i = intersection a b; u = area a + area b - i
      in if u \<le> 0 then 0 else i / u)"

text \<open>Modelled from the spec: the greedy selection over the sorted candidates, with the cap.\<close>

fun nms_select :: "real \<Rightarrow> nat \<Rightarrow> (nat \<times> box) list \<Rightarrow> (nat \<times> box) list" where
  "nms_select iou_threshold 0 cs = []"
| "nms_select iou_threshold (Suc n) [] = []"
| "nms_select iou_threshold (Suc n) (c # cs) =
     c # nms_select iou_threshold n (filter (\<lambda>d. \<not> iou_threshold < iou (snd c) (snd d)) cs)"

text \<open>Modelled from the spec: the candidates, numbered, in descending order of score.\<close>

definition by_score :: "box list \<Rightarrow> real list \<Rightarrow> (nat \<times> box) list" where
  "by_score boxes scores =
     map (\<lambda>(i, b, s). (i, b))
       (sort_key (\<lambda>(i, b, s). - s) (zip [0..<length boxes] (zip boxes scores)))"

text \<open>Modelled from the spec: the indices of the selected boxes, best first.\<close>

definition selected_indices :: "box list \<Rightarrow> real list \<Rightarrow> nat \<Rightarrow> real \<Rightarrow> nat list" where
  "selected_indices boxes scores max_output_size iou_threshold =
     map fst (nms_select iou_threshold max_output_size (by_score boxes scores))"

text \<open>
  Modelled from the spec: the call \<open>tf.image.non_max_suppression(boxes, scores,
  max_output_size, iou_threshold)\<close>. Section 6 gives the IoU threshold as a number in
  \<open>[0, 1]\<close> and section 7 makes a malformed threshold an error: a threshold outside that
  range is refused (the library raises its InvalidArgumentError when the graph is evaluated),
  otherwise the result is the indices of the greedy selection.
\<close>

definition non_max_suppression :: "box list \<Rightarrow> real list \<Rightarrow> nat \<Rightarrow> real \<Rightarrow> error + nat list" where
  "non_max_suppression boxes scores max_output_size iou_threshold =
     (if iou_threshold < 0 \<or> 1 < iou_threshold then Inl InvalidArgumentError
      else Inr (selected_indices boxes scores max_output_size iou_threshold))"

definition gather :: "'a list \<Rightarrow> nat list \<Rightarrow> 'a list" where
  "gather xs idx = map (\<lambda>i. xs ! i) idx"

subsection \<open>The pipeline\<close>

text \<open>Lines 131 to 135 on the decoded tensors.\<close>

definition filtered ::
  "cfg \<Rightarrow> prediction \<Rightarrow> real \<Rightarrow> int \<Rightarrow> error + (box list \<times> real list \<times> int list)" where
  "filtered c p score_threshold mode =
     (case decode c p mode of Inl e \<Rightarrow> Inl e | Inr d \<Rightarrow> Inr (detection_filter score_threshold d))"

text \<open>
  The values of \<open>boxes\<close>, \<open>scores\<close> and \<open>classes\<close> when line 144 calls the suppression:
  line 142 has already multiplied the boxes by \<open>image_dims\<close>.
\<close>

definition nms_input ::
  "cfg \<Rightarrow> prediction \<Rightarrow> nat \<times> nat \<Rightarrow> real \<Rightarrow> int \<Rightarrow> error + (box list \<times> real list \<times> int list)" where
  "nms_input c p shape score_threshold mode =
     (case filtered c p score_threshold mode of
        Inl e \<Rightarrow> Inl e
      | Inr (boxes, scores, classes) \<Rightarrow> Inr (scale_boxes shape boxes, scores, classes))"

text \<open>Lines 155 to 158: the shift of the class ids.\<close>

definition class_offset :: "int \<Rightarrow> node \<Rightarrow> int \<Rightarrow> int" where
  "class_offset mode tree cls =
     (if mode = 0 then cls - 1
      else if mode = 2 then cls + int (length (children tree))
      else cls)"

text \<open>
  \<open>predict\<close>: \<open>p\<close> is the reshaped output of the network for the image, \<open>shape\<close> the
  height and width of the image passed in. The cap of the suppression is the literal 10 of
  line 144.
\<close>

definition predict ::
  "cfg \<Rightarrow> prediction \<Rightarrow> nat \<times> nat \<Rightarrow> real \<Rightarrow> real \<Rightarrow> int \<Rightarrow> error + (box list \<times> real list \<times> int list)" where
  "predict c p shape iou_threshold score_threshold mode =
     (case nms_input c p shape score_threshold mode of
        Inl e \<Rightarrow> Inl e
      | Inr (boxes, scores, classes) \<Rightarrow>
          (case non_max_suppression boxes scores 10 iou_threshold of
             Inl e \<Rightarrow> Inl e
           | Inr nms_index \<Rightarrow>
               Inr (gather boxes nms_index,
                    gather scores nms_index,
                    map (class_offset mode (HIER_TREE c)) (gather classes nms_index))))"

section \<open>Loading the LISA annotations (process\_lisa.py, \<open>load_lisa_data\<close>)\<close>

text \<open>
  The file system and pandas are collaborators. A data frame is its number of rows and its
  columns in order; a cell is a string, or \<open>None\<close> for a missing value. The world answers
  \<open>os.path.isdir\<close>, \<open>glob.glob\<close> and \<open>pd.read_csv\<close> (\<open>None\<close> when the read raises; the
  exception of pandas is then represented by \<open>ParserError\<close>).
  Every function that touches a file returns, beside its outcome, the list of the files it
  has read.
\<close>

type_synonym series = "string option list"

record dataframe =
  nrows :: nat
  cols :: "(string \<times> series) list"

record world =
  isdir :: "string \<Rightarrow> bool"
  glob :: "string \<Rightarrow> string list"
  read_csv :: "string \<Rightarrow> dataframe option"

text \<open>\<open>df[name]\<close>\<close>

definition getitem :: "dataframe \<Rightarrow> string \<Rightarrow> error + series" where
  "getitem df name = (case map_of (cols df) name of None \<Rightarrow> Inl (KeyError name) | Some s \<Rightarrow> Inr s)"

text \<open>\<open>df.loc[:, a:b]\<close>: the columns from label \<open>a\<close> to label \<open>b\<close>, both included.\<close>

definition loc_cols :: "dataframe \<Rightarrow> string \<Rightarrow> string \<Rightarrow> error + dataframe" where
  "loc_cols df a b =
     (let names = map fst (cols df) in
      if a \<notin> set names then Inl (KeyError a)
      else if b \<notin> set names then Inl (KeyError b)
      else Inr (df\<lparr>cols := dropWhile (\<lambda>c. fst c \<noteq> a)
                             (take (Suc (length (takeWhile (\<lambda>c. fst c \<noteq> b) (cols df)))) (cols df))\<rparr>))"

text \<open>The column \<open>name\<close> of the row-wise concatenation of frames: missing where a frame lacks it.\<close>

definition concat_col :: "dataframe list \<Rightarrow> string \<Rightarrow> series" where
  "concat_col frames name =
     concat (map (\<lambda>df. case map_of (cols df) name of
                          None \<Rightarrow> replicate (nrows df) None
                        | Some s \<Rightarrow> s) frames)"

text \<open>\<open>pd.concat(Y)[names]\<close>: a KeyError for the first name that no frame has.\<close>

fun select_cols :: "dataframe list \<Rightarrow> string list \<Rightarrow> error + (string \<times> series) list" where
  "select_cols frames [] = Inr []"
| "select_cols frames (name # names) =
     (if \<forall>df \<in> set frames. name \<notin> fst ` set (cols df) then Inl (KeyError name)
      else case select_cols frames names of
             Inl e \<Rightarrow> Inl e
           | Inr cs \<Rightarrow> Inr ((name, concat_col frames name) # cs))"

text \<open>The loop of lines 35 to 38; the second component lists the files read.\<close>

fun read_frames ::
  "world \<Rightarrow> string \<Rightarrow> string list \<Rightarrow> (error + (series list \<times> dataframe list)) \<times> string list" where
  "read_frames w path [] = (Inr ([], []), [])"
| "read_frames w path (fl # fls) =
     (case read_csv w fl of
        None \<Rightarrow> (Inl ParserError, [fl])
      | Some df \<Rightarrow>
          (case getitem df ''Filename'' of
             Inl e \<Rightarrow> (Inl e, [fl])
           | Inr names \<Rightarrow>
               (case loc_cols df ''Annotation tag'' ''Lower right corner Y'' of
                  Inl e \<Rightarrow> (Inl e, [fl])
                | Inr y \<Rightarrow>
                    (case read_frames w path fls of
                       (Inl e, tr) \<Rightarrow> (Inl e, fl # tr)
                     | (Inr (X, Y), tr) \<Rightarrow>
                         (Inr (map (map_option (\<lambda>n. path @ n)) names # X, y # Y), fl # tr)))))"

definition load_lisa_data ::
  "world \<Rightarrow> string option \<Rightarrow> (error + (series \<times> (string \<times> series) list)) \<times> string list" where
  "load_lisa_data w path =
     (case path of
        None \<Rightarrow> (Inl (ValueError ''Please setup correct path to to data set''), [])
      | Some pth \<Rightarrow>
          if \<not> isdir w pth then (Inl (IOError ''Path does not exist''), [])
          else
            (case read_frames w pth (glob w (pth @ ''*.csv'')) of
               (Inl e, tr) \<Rightarrow> (Inl e, tr)
             | (Inr (X, Y), tr) \<Rightarrow>
                 if X = [] then (Inl (ValueError ''No objects to concatenate''), tr)
                 else
                   (case select_cols Y [''Upper left corner X'', ''Upper left corner Y'',
                                        ''Lower right corner X'', ''Lower right corner Y'',
                                        ''Annotation tag''] of
                      Inl e \<Rightarrow> (Inl e, tr)
                    | Inr ycols \<Rightarrow> (Inr (concat X, ycols), tr))))"

subsection \<open>The configuration inputs\<close>

text \<open>
  Modelled from the spec: section 6 lists a maximum-detections cap (an integer) among the
  configuration inputs of the decode, beside the anchors, the number of classes and the
  class hierarchy. The module \<open>cfg\<close> is not part of the sources; the constants that
  \<open>predict\<close> reads from it are the record \<open>cfg\<close>, and \<open>predict\<close> reads no cap.
\<close>

record configuration =
  constants :: cfg
  max_detections :: nat

subsection \<open>Input classes\<close>

text \<open>
  The inputs that the all-zero scenario is about: every entry of the tensor, at every grid
  cell, anchor and channel, is zero.
\<close>

definition all_zero :: "cfg \<Rightarrow> prediction \<Rightarrow> bool" where
  "all_zero c p =
     list_all (\<lambda>(i, j, k). list_all (\<lambda>ch. netout p i j k ch = 0) [0..<N_CLASSES c + 5])
       (cells (GRID_H p) (GRID_W p) (N_ANCHORS c))"

text \<open>
  The outcome that the all-zero scenario is about: the decode returns, with one score and one
  class for each box, every returned score is \<open>v\<close>, and the result is empty exactly when
  \<open>v\<close> is below the score threshold.
\<close>

definition uniform_result ::
  "error + (box list \<times> real list \<times> int list) \<Rightarrow> real \<Rightarrow> real \<Rightarrow> bool" where
  "uniform_result r v score_threshold =
     (case r of
        Inl e \<Rightarrow> False
      | Inr (bs, ss, cls) \<Rightarrow>
          length ss = length bs \<and> length cls = length bs \<and> set ss \<subseteq> {v}
          \<and> (bs = []) = (v < score_threshold))"

section \<open>Sample inputs\<close>

text \<open>Two anchors of the same shape, three classes, a hierarchy with a bare root.\<close>

definition ex_cfg :: cfg where
  "ex_cfg = \<lparr>N_ANCHORS = 2, N_CLASSES = 3, ANCHORS = [(1, 1), (1, 1)], HIER_TREE = Node (- 1) []\<rparr>"

text \<open>A grid of one row and two columns whose values are all zero.\<close>

definition ex_zero :: prediction where
  "ex_zero = \<lparr>GRID_H = 1, GRID_W = 2, netout = (\<lambda>i j k ch. 0)\<rparr>"

text \<open>The same constants with a hierarchy whose root has three leaves.\<close>

definition ex_cfg3 :: cfg where
  "ex_cfg3 = \<lparr>N_ANCHORS = 2, N_CLASSES = 3, ANCHORS = [(1, 1), (1, 1)],
              HIER_TREE = Node (- 1) [Node 0 [], Node 1 [], Node 2 []]\<rparr>"

text \<open>A configuration with the constants above and a maximum-detections cap of 1.\<close>

definition ex_configuration :: configuration where
  "ex_configuration = \<lparr>constants = ex_cfg, max_detections = 1\<rparr>"

text \<open>One anchor, twice as high as wide.\<close>

definition ex_cfg1 :: cfg where
  "ex_cfg1 = \<lparr>N_ANCHORS = 1, N_CLASSES = 3, ANCHORS = [(1, 2)], HIER_TREE = Node (- 1) []\<rparr>"

text \<open>
  A single cell with zero box offsets, objectness logit \<open>ln 9\<close> (objectness 0.9) and class
  logits 2.0, 1.0 and 0.1.
\<close>

definition ex_flat :: prediction where
  "ex_flat = \<lparr>GRID_H = 1, GRID_W = 1, netout = (\<lambda>i j k ch. [0, 0, 0, 0, ln 9, 2, 1, 1 / 10] ! ch)\<rparr>"

text \<open>A directory \<open>data/\<close> holding one annotation file with one row.\<close>

definition ex_frame :: dataframe where
  "ex_frame = \<lparr>nrows = 1, cols =
     [(''Filename'', [Some ''a.png'']), (''Annotation tag'', [Some ''stop'']),
      (''Upper left corner X'', [Some ''1'']), (''Upper left corner Y'', [Some ''2'']),
      (''Lower right corner X'', [Some ''3'']), (''Lower right corner Y'', [Some ''4''])]\<rparr>"

definition ex_world :: world where
  "ex_world = \<lparr>isdir = (\<lambda>d. d = ''data/''),
               glob = (\<lambda>pat. if pat = ''data/*.csv'' then [''data/a.csv''] else []),
               read_csv = (\<lambda>f. if f = ''data/a.csv'' then Some ex_frame else None)\<rparr>"

section \<open>Properties\<close>

subsection \<open>The grid-cell map\<close>

lemma concat_replicate_nth:
  "i < H \<Longrightarrow> j < length xs \<Longrightarrow> concat (replicate H xs) ! (i * length xs + j) = xs ! j"
proof (induction H arbitrary: i)
  case 0
  then show ?case by simp
next
  case (Suc H)
  show ?case
  proof (cases i)
    case 0
    with Suc.prems show ?thesis by (simp add: nth_append)
  next
    case (Suc i')
    with Suc.prems have "i' < H" by simp
    from Suc.IH [OF this Suc.prems(2)] Suc show ?thesis
      by (simp add: nth_append)
  qed
qed

lemma concat_map_replicate_nth:
  "i < length ys \<Longrightarrow> j < W \<Longrightarrow> concat (map (replicate W) ys) ! (i * W + j) = ys ! i"
proof (induction ys arbitrary: i)
  case Nil
  then show ?case by simp
next
  case (Cons y ys)
  show ?case
  proof (cases i)
    case 0
    with Cons.prems show ?thesis by (simp add: nth_append)
  next
    case (Suc i')
    with Cons.prems have "i' < length ys" by simp
    from Cons.IH [OF this Cons.prems(2)] Suc show ?thesis
      by (simp add: nth_append)
  qed
qed

lemma cx_cell: "i < H \<Longrightarrow> j < W \<Longrightarrow> cx H W i j = real j"
  using concat_replicate_nth [of i H j "arange W"] by (simp add: cx_def arange_def)

lemma cy_cell: "i < H \<Longrightarrow> j < W \<Longrightarrow> cy H W i j = real i"
  using concat_map_replicate_nth [of i "arange H" j W] by (simp add: cy_def arange_def)

subsection \<open>The flattened positions\<close>

lemma nth_concat_map_block:
  "\<forall>x \<in> set xs. length (f x) = m \<Longrightarrow> i < length xs \<Longrightarrow> r < m \<Longrightarrow>
   concat (map f xs) ! (i * m + r) = f (xs ! i) ! r"
proof (induction xs arbitrary: i)
  case Nil
  then show ?case by simp
next
  case (Cons x xs)
  show ?case
  proof (cases i)
    case 0
    with Cons.prems show ?thesis by (simp add: nth_append)
  next
    case (Suc i')
    with Cons.prems have a: "i' < length xs" and b: "\<forall>x \<in> set xs. length (f x) = m" and c: "length (f x) = m" by simp_all
    from Cons.IH [OF b a Cons.prems(3)] Suc c show ?thesis
      by (simp add: nth_append)
  qed
qed

lemma length_concat_map_block:
  "\<forall>x \<in> set xs. length (f x) = m \<Longrightarrow> length (concat (map f xs)) = length xs * m"
  by (induction xs) simp_all

lemma cells_length: "length (cells H W A) = H * W * A"
  unfolding cells_def
  apply (subst length_concat_map_block [where m = "W * A"])
   apply (simp add: length_concat_map_block [where m = A])
  apply simp
  done

lemma cells_nth:
  assumes "i < H" "j < W" "k < A"
  shows "cells H W A ! ((i * W + j) * A + k) = (i, j, k)"
proof -
  let ?row = "\<lambda>i. concat (map (\<lambda>j. map (\<lambda>k. (i, j, k)) [0..<A]) [0..<W])"
  have len: "\<forall>x \<in> set [0..<H]. length (?row x) = W * A"
    by (simp add: length_concat_map_block [where m = A])
  have idx: "(i * W + j) * A + k = i * (W * A) + (j * A + k)"
    by (simp add: algebra_simps)
  have bound: "j * A + k < W * A"
  proof -
    have "j * A + k < j * A + A" using assms by simp
    also have "\<dots> = (Suc j) * A" by simp
    also have "\<dots> \<le> W * A" using assms by (intro mult_le_mono1) simp
    finally show ?thesis .
  qed
  have "cells H W A ! (i * (W * A) + (j * A + k)) = ?row ([0..<H] ! i) ! (j * A + k)"
    unfolding cells_def
    by (rule nth_concat_map_block [OF len _ bound]) (simp add: assms)
  also have "\<dots> = ?row i ! (j * A + k)" using assms by simp
  also have "\<dots> = (map (\<lambda>k. (i, j, k)) [0..<A]) ! k"
    using assms nth_concat_map_block [where f = "\<lambda>j. map (\<lambda>k. (i, j, k)) [0..<A]" and xs = "[0..<W]" and m = A and i = j and r = k]
    by simp
  also have "\<dots> = (i, j, k)" using assms by simp
  finally show ?thesis by (simp only: idx)
qed

subsection \<open>The score threshold and the decoded tensors\<close>

lemma boolean_mask_Nil: "boolean_mask [] m = []"
  by (simp add: boolean_mask_def)

lemma boolean_mask_Cons:
  "boolean_mask (x # xs) (prediction_mask t (s # ss)) =
     (if t \<le> s then x # boolean_mask xs (prediction_mask t ss) else boolean_mask xs (prediction_mask t ss))"
  by (simp add: boolean_mask_def prediction_mask_def)

lemma boolean_mask_length:
  "length xs = length ss \<Longrightarrow>
   length (boolean_mask xs (prediction_mask t ss)) = length (filter (\<lambda>s. t \<le> s) ss)"
  by (induction xs ss rule: list_induct2) (simp_all add: boolean_mask_Nil boolean_mask_Cons)

lemma boolean_mask_scores:
  "boolean_mask ss (prediction_mask t ss) = filter (\<lambda>s. t \<le> s) ss"
  by (induction ss) (simp_all add: boolean_mask_Nil boolean_mask_Cons)

lemma boolean_mask_zip3:
  "length bs = length ss \<Longrightarrow> length ss = length cs \<Longrightarrow>
   zip (boolean_mask bs (prediction_mask t ss))
       (zip (boolean_mask ss (prediction_mask t ss)) (boolean_mask cs (prediction_mask t ss)))
   = filter (\<lambda>(b, s, c). t \<le> s) (zip bs (zip ss cs))"
  by (induction bs ss cs rule: list_induct3) (simp_all add: boolean_mask_Nil boolean_mask_Cons)

lemma boolean_mask_all:
  "length xs = length ss \<Longrightarrow> \<forall>s \<in> set ss. t \<le> s \<Longrightarrow> boolean_mask xs (prediction_mask t ss) = xs"
  by (induction xs ss rule: list_induct2) (simp_all add: boolean_mask_Nil boolean_mask_Cons)

lemma detection_filter_props:
  assumes "length boxes = length scores" "length classes = length scores"
    and "detection_filter t (boxes, scores, classes) = (bs, ss, cs)"
  shows "length bs = length ss \<and> length cs = length ss
       \<and> ss = filter (\<lambda>s. t \<le> s) scores
       \<and> zip bs (zip ss cs) = filter (\<lambda>(b, s, c). t \<le> s) (zip boxes (zip scores classes))
       \<and> detection_filter t (bs, ss, cs) = (bs, ss, cs)"
proof -
  from assms(3) have bs: "bs = boolean_mask boxes (prediction_mask t scores)"
    and ss: "ss = boolean_mask scores (prediction_mask t scores)"
    and cs: "cs = boolean_mask classes (prediction_mask t scores)"
    by (simp_all add: detection_filter_def Let_def)
  have ss': "ss = filter (\<lambda>s. t \<le> s) scores"
    by (simp add: ss boolean_mask_scores)
  have lb: "length bs = length ss"
    using assms(1) by (simp add: bs ss' boolean_mask_length)
  have lc: "length cs = length ss"
    using assms(2) by (simp add: cs ss' boolean_mask_length)
  have z: "zip bs (zip ss cs) = filter (\<lambda>(b, s, c). t \<le> s) (zip boxes (zip scores classes))"
    unfolding bs ss cs using assms(1,2) by (intro boolean_mask_zip3) simp_all
  have all: "\<forall>s \<in> set ss. t \<le> s" by (simp add: ss')
  have "detection_filter t (bs, ss, cs) = (bs, ss, cs)"
    using lb lc all by (simp add: detection_filter_def Let_def boolean_mask_all)
  with ss' lb lc z show ?thesis by simp
qed

lemma collect_map:
  "\<forall>x \<in> set xs. f x = Inr (g x) \<Longrightarrow> collect f xs = Inr (map g xs)"
  by (induction xs) simp_all

lemma collect_length: "collect f xs = Inr ys \<Longrightarrow> length ys = length xs"
  by (induction xs arbitrary: ys) (auto split: sum.splits)

lemma cells_set: "set (cells H W A) = {(i, j, k). i < H \<and> j < W \<and> k < A}"
  by (force simp: cells_def)

lemma decode_Inr:
  assumes "decode c p mode = Inr (boxes, scores, classes)"
  shows "boxes = map (\<lambda>(i, j, k). boxes_at c p i j k) (cells (GRID_H p) (GRID_W p) (N_ANCHORS c))"
    and "length scores = length boxes" and "length classes = length boxes"
    and "0 < GRID_H p" and "0 < GRID_W p" and "length (ANCHORS c) = N_ANCHORS c"
  using assms
  by (auto simp: decode_def Let_def split: if_splits sum.splits dest: collect_length)

lemma decode_mode0:
  assumes "0 < GRID_H p" "0 < GRID_W p" "0 < N_ANCHORS c" "length (ANCHORS c) = N_ANCHORS c"
  shows "decode c p 0 =
     Inr (map (\<lambda>(i, j, k). boxes_at c p i j k) (cells (GRID_H p) (GRID_W p) (N_ANCHORS c)),
          map (\<lambda>(i, j, k). box_confidence p i j k) (cells (GRID_H p) (GRID_W p) (N_ANCHORS c)),
          map (\<lambda>x. 0) (cells (GRID_H p) (GRID_W p) (N_ANCHORS c)))"
proof -
  let ?ijk = "cells (GRID_H p) (GRID_W p) (N_ANCHORS c)"
  have "collect (\<lambda>(i, j, k). box_scores 0 (HIER_TREE c) (box_confidence p i j k)
            (box_class_probs c p i j k)) ?ijk
        = Inr (map (\<lambda>(i, j, k). [box_confidence p i j k]) ?ijk)"
    by (rule collect_map) (auto simp: box_scores_def)
  then show ?thesis using assms
    by (simp add: decode_def Let_def amax_def image_iff split_def comp_def)
qed

subsection \<open>The greedy selection\<close>

lemma nms_select_Nil: "nms_select t n [] = []"
  by (cases n) simp_all

lemma nms_select_Cons:
  "0 < n \<Longrightarrow> nms_select t n (c # cs) =
     c # nms_select t (n - 1) (filter (\<lambda>d. \<not> t < iou (snd c) (snd d)) cs)"
  by (cases n) simp_all

lemma nms_select_subset: "set (nms_select t n cs) \<subseteq> set cs"
  by (induction t n cs rule: nms_select.induct) auto

lemma nms_select_length_cap: "length (nms_select t n cs) \<le> n"
  by (induction t n cs rule: nms_select.induct) auto

lemma nms_select_length_input: "length (nms_select t n cs) \<le> length cs"
proof (induction t n cs rule: nms_select.induct)
  case (3 t n c cs)
  have "length (filter (\<lambda>d. \<not> t < iou (snd c) (snd d)) cs) \<le> length cs"
    by (rule length_filter_le)
  with "3.IH" have "length (nms_select t n (filter (\<lambda>d. \<not> t < iou (snd c) (snd d)) cs)) \<le> length cs"
    by (rule order_trans)
  then show ?case by simp
qed simp_all

lemma nms_select_nonempty: "0 < n \<Longrightarrow> cs \<noteq> [] \<Longrightarrow> nms_select t n cs \<noteq> []"
  by (cases n; cases cs) simp_all

lemma nms_select_separated:
  "sorted_wrt (\<lambda>a b. \<not> t < iou (snd a) (snd b)) (nms_select t n cs)"
proof (induction t n cs rule: nms_select.induct)
  case (3 t n c cs)
  have "set (nms_select t n (filter (\<lambda>d. \<not> t < iou (snd c) (snd d)) cs))
          \<subseteq> set (filter (\<lambda>d. \<not> t < iou (snd c) (snd d)) cs)"
    by (rule nms_select_subset)
  with 3 show ?case by auto
qed simp_all

lemma iou_commute: "iou a b = iou b a"
  by (cases a; cases b)
     (simp add: iou_def intersection_def area_def min.commute max.commute add.commute)

lemma pairwise_iou_of_separated:
  assumes "sorted_wrt (\<lambda>a b. \<not> t < iou a b) bs" "i < length bs" "j < length bs" "i \<noteq> j"
  shows "iou (bs ! i) (bs ! j) \<le> t"
proof (cases "i < j")
  case True
  with assms have "\<not> t < iou (bs ! i) (bs ! j)"
    by (simp add: sorted_wrt_iff_nth_less)
  then show ?thesis by simp
next
  case False
  with assms have "j < i" by simp
  with assms have "\<not> t < iou (bs ! j) (bs ! i)"
    by (simp add: sorted_wrt_iff_nth_less)
  then show ?thesis by (simp add: iou_commute)
qed

lemma by_score_set:
  "(i, b) \<in> set (by_score boxes scores) \<Longrightarrow> i < length boxes \<and> boxes ! i = b"
proof -
  assume "(i, b) \<in> set (by_score boxes scores)"
  then obtain s where "(i, b, s) \<in> set (zip [0..<length boxes] (zip boxes scores))"
    by (auto simp: by_score_def)
  then show ?thesis
    by (auto simp: in_set_zip)
qed

lemma by_score_length: "length (by_score boxes scores) = min (length boxes) (length scores)"
  by (simp add: by_score_def)

lemma nms_index_in_range:
  "i \<in> set (selected_indices boxes scores n t) \<Longrightarrow> i < length boxes"
proof -
  assume "i \<in> set (selected_indices boxes scores n t)"
  then obtain b where "(i, b) \<in> set (nms_select t n (by_score boxes scores))"
    by (auto simp: selected_indices_def)
  with nms_select_subset have "(i, b) \<in> set (by_score boxes scores)" by blast
  then show ?thesis by (simp add: by_score_set)
qed

lemma gather_nms_boxes:
  "gather boxes (selected_indices boxes scores n t) =
     map snd (nms_select t n (by_score boxes scores))"
proof -
  have "\<forall>c \<in> set (nms_select t n (by_score boxes scores)). boxes ! fst c = snd c"
    using nms_select_subset [of t n "by_score boxes scores"] by_score_set [of _ _ boxes scores]
    by fastforce
  then show ?thesis
    by (simp add: gather_def selected_indices_def)
qed

lemma nms_boxes_separated:
  "sorted_wrt (\<lambda>a b. \<not> t < iou a b) (gather boxes (selected_indices boxes scores n t))"
  using nms_select_separated [of t n "by_score boxes scores"]
  by (simp add: gather_nms_boxes sorted_wrt_map)

lemma nms_length:
  "length (selected_indices boxes scores n t) \<le> n"
  "length (selected_indices boxes scores n t) \<le> length boxes"
  using nms_select_length_cap [of t n "by_score boxes scores"]
        nms_select_length_input [of t n "by_score boxes scores"]
  by (simp_all add: selected_indices_def by_score_length)

subsection \<open>The pipeline and the sample inputs\<close>

lemma predict_stages:
  assumes "predict c p shape iou_threshold score_threshold mode = Inr (bs, ss, cls)"
  obtains fb fs fc where
    "filtered c p score_threshold mode = Inr (fb, fs, fc)"
    "nms_input c p shape score_threshold mode = Inr (scale_boxes shape fb, fs, fc)"
    "non_max_suppression (scale_boxes shape fb) fs 10 iou_threshold
       = Inr (selected_indices (scale_boxes shape fb) fs 10 iou_threshold)"
    "bs = gather (scale_boxes shape fb) (selected_indices (scale_boxes shape fb) fs 10 iou_threshold)"
    "ss = gather fs (selected_indices (scale_boxes shape fb) fs 10 iou_threshold)"
    "cls = map (class_offset mode (HIER_TREE c))
             (gather fc (selected_indices (scale_boxes shape fb) fs 10 iou_threshold))"
  using assms
  by (auto simp: predict_def nms_input_def non_max_suppression_def
      split: sum.splits prod.splits if_splits)

lemma ex_cells: "cells 1 2 2 = [(0, 0, 0), (0, 0, 1), (0, 1, 0), (0, 1, 1)]"
  by code_simp

lemma ex_zero_decode:
  "decode ex_cfg ex_zero 0 =
     Inr ([(0, 0, 1, 1 / 2), (0, 0, 1, 1 / 2), (0, 1 / 2, 1, 1), (0, 1 / 2, 1, 1)],
          [1 / 2, 1 / 2, 1 / 2, 1 / 2], [0, 0, 0, 0])"
  using ex_cells
  by (simp add: decode_def ex_cfg_def ex_zero_def box_scores_def box_confidence_def sigmoid_def
      boxes_at_def box_mins_def box_maxes_def box_xy_def box_wh_def c_xy_def cx_def cy_def
      arange_def netout_size_def amax_def upt_rec)

lemma ex_zero_filtered:
  "filtered ex_cfg ex_zero (1 / 2) 0 =
     Inr ([(0, 0, 1, 1 / 2), (0, 0, 1, 1 / 2), (0, 1 / 2, 1, 1), (0, 1 / 2, 1, 1)],
          [1 / 2, 1 / 2, 1 / 2, 1 / 2], [0, 0, 0, 0])"
  using ex_zero_decode
  by (simp add: filtered_def detection_filter_def prediction_mask_def boolean_mask_def)

lemma ex_zero_nms_input:
  "nms_input ex_cfg ex_zero (200, 100) (1 / 2) 0 =
     Inr ([(0, 0, 200, 50), (0, 0, 200, 50), (0, 50, 200, 100), (0, 50, 200, 100)],
          [1 / 2, 1 / 2, 1 / 2, 1 / 2], [0, 0, 0, 0])"
  using ex_zero_filtered
  by (simp add: nms_input_def scale_boxes_def scale_box_def image_dims_def)

lemma ex_zero_by_score:
  "by_score [(0, 0, 200, 50), (0, 0, 200, 50), (0, 50, 200, 100), (0, 50, 200, 100)]
            [1 / 2, 1 / 2, 1 / 2, 1 / 2] =
     [(0, (0, 0, 200, 50)), (1, (0, 0, 200, 50)), (2, (0, 50, 200, 100)), (3, (0, 50, 200, 100))]"
  by (simp add: by_score_def upt_rec)

lemma ex_zero_nms:
  "selected_indices [(0, 0, 200, 50), (0, 0, 200, 50), (0, 50, 200, 100), (0, 50, 200, 100)]
            [1 / 2, 1 / 2, 1 / 2, 1 / 2] 10 (1 / 2) = [0, 2]"
  using ex_zero_by_score
  by (simp add: selected_indices_def nms_select_Nil nms_select_Cons iou_def area_def
      intersection_def)

lemma ex_zero_predict:
  "predict ex_cfg ex_zero (200, 100) (1 / 2) (1 / 2) 0 =
     Inr ([(0, 0, 200, 50), (0, 50, 200, 100)], [1 / 2, 1 / 2], [- 1, - 1])"
  using ex_zero_nms_input ex_zero_nms
  by (simp add: predict_def non_max_suppression_def gather_def class_offset_def)

lemma ex_flat_decode:
  "decode ex_cfg1 ex_flat 0 = Inr ([(- 1 / 2, 0, 3 / 2, 1)], [9 / 10], [0])"
  by (simp add: decode_def cells_def ex_cfg1_def ex_flat_def box_scores_def box_confidence_def
      sigmoid_def exp_minus boxes_at_def box_mins_def box_maxes_def box_xy_def box_wh_def c_xy_def
      cx_def cy_def arange_def netout_size_def amax_def)

lemma ex_flat_predict:
  "predict ex_cfg1 ex_flat (200, 100) (1 / 2) (1 / 2) 0 = Inr ([(- 100, 0, 300, 100)], [9 / 10], [- 1])"
  using ex_flat_decode
  by (simp add: predict_def nms_input_def filtered_def detection_filter_def prediction_mask_def
      boolean_mask_def scale_boxes_def scale_box_def image_dims_def non_max_suppression_def
      selected_indices_def by_score_def nms_select_Nil nms_select_Cons gather_def class_offset_def)


subsection \<open>Geometry\<close>

lemma box_xy_cell:
  "i < GRID_H p \<Longrightarrow> j < GRID_W p \<Longrightarrow>
   box_xy p i j k = ((sigmoid (netout p i j k 0) + real j) / real (GRID_W p),
                     (sigmoid (netout p i j k 1) + real i) / real (GRID_H p))"
  by (simp add: box_xy_def c_xy_def netout_size_def cx_cell cy_cell)

lemma box_wh_cell:
  "box_wh c p i j k = (exp (netout p i j k 2) * fst (ANCHORS c ! k) / real (GRID_W p),
                       exp (netout p i j k 3) * snd (ANCHORS c ! k) / real (GRID_H p))"
  by (simp add: box_wh_def netout_size_def split_def Let_def)

lemma boxes_at_corners:
  "boxes_at c p i j k =
     (snd (box_xy p i j k) - snd (box_wh c p i j k) / 2,
      fst (box_xy p i j k) - fst (box_wh c p i j k) / 2,
      snd (box_xy p i j k) + snd (box_wh c p i j k) / 2,
      fst (box_xy p i j k) + fst (box_wh c p i j k) / 2)"
  by (simp add: boxes_at_def box_mins_def box_maxes_def split_def Let_def)

lemma decode_box_nth:
  assumes "decode c p mode = Inr (boxes, scores, classes)"
    and "i < GRID_H p" "j < GRID_W p" "k < N_ANCHORS c"
  shows "boxes ! ((i * GRID_W p + j) * N_ANCHORS c + k) = boxes_at c p i j k"
proof -
  let ?n = "(i * GRID_W p + j) * N_ANCHORS c + k"
  have "?n < length (cells (GRID_H p) (GRID_W p) (N_ANCHORS c))"
  proof -
    have "i * GRID_W p + j < i * GRID_W p + GRID_W p" using assms(3) by simp
    also have "\<dots> = Suc i * GRID_W p" by simp
    also have "\<dots> \<le> GRID_H p * GRID_W p" using assms(2) by (intro mult_le_mono1) simp
    finally have a: "Suc (i * GRID_W p + j) \<le> GRID_H p * GRID_W p" by simp
    have "?n < (i * GRID_W p + j) * N_ANCHORS c + N_ANCHORS c" using assms(4) by simp
    also have "\<dots> = Suc (i * GRID_W p + j) * N_ANCHORS c" by simp
    also have "\<dots> \<le> (GRID_H p * GRID_W p) * N_ANCHORS c" using a by (rule mult_le_mono1)
    finally show ?thesis by (simp add: cells_length)
  qed
  then show ?thesis
    using decode_Inr(1) [OF assms(1)] cells_nth [OF assms(2,3,4)] by simp
qed

text \<open>
  C5: for every grid cell \<open>(i, j)\<close> and anchor \<open>k\<close> of a decoded tensor, the box centre is
  \<open>(sigmoid tx + j, sigmoid ty + i)\<close> divided by \<open>(W, H)\<close>, the extent is \<open>(exp tw, exp th)\<close>
  times the anchor's width and height divided by \<open>(W, H)\<close>, and the row of \<open>boxes\<close> at the
  flattened position of \<open>(i, j, k)\<close> is centre minus and plus half the extent, in the order
  \<open>(y1, x1, y2, x2)\<close>.
\<close>

theorem geometry_decode:
  assumes "decode c p mode = Inr (boxes, scores, classes)"
    and "i < GRID_H p" and "j < GRID_W p" and "k < N_ANCHORS c"
  shows "box_xy p i j k = ((sigmoid (netout p i j k 0) + real j) / real (GRID_W p),
                           (sigmoid (netout p i j k 1) + real i) / real (GRID_H p))
       \<and> box_wh c p i j k = (exp (netout p i j k 2) * fst (ANCHORS c ! k) / real (GRID_W p),
                             exp (netout p i j k 3) * snd (ANCHORS c ! k) / real (GRID_H p))
       \<and> boxes ! ((i * GRID_W p + j) * N_ANCHORS c + k) =
           (snd (box_xy p i j k) - snd (box_wh c p i j k) / 2,
            fst (box_xy p i j k) - fst (box_wh c p i j k) / 2,
            snd (box_xy p i j k) + snd (box_wh c p i j k) / 2,
            fst (box_xy p i j k) + fst (box_wh c p i j k) / 2)"
  using box_xy_cell [OF assms(2,3)] box_wh_cell [of c p i j k]
    decode_box_nth [OF assms] boxes_at_corners [of c p i j k]
  by simp

theorem geometry_decode_witness:
  "decode ex_cfg1 ex_flat 0 = Inr ([(- 1 / 2, 0, 3 / 2, 1)], [9 / 10], [0])
   \<and> (0::nat) < GRID_H ex_flat \<and> (0::nat) < GRID_W ex_flat \<and> (0::nat) < N_ANCHORS ex_cfg1
   \<and> box_xy ex_flat 0 0 0 = (1 / 2, 1 / 2)
   \<and> box_wh ex_cfg1 ex_flat 0 0 0 = (1, 2)
   \<and> [(- 1 / 2, 0, 3 / 2, 1) :: box] ! 0 = (1 / 2 - 2 / 2, 1 / 2 - 1 / 2, 1 / 2 + 2 / 2, 1 / 2 + 1 / 2)"
proof -
  have h: "(0::nat) < GRID_H ex_flat" "(0::nat) < GRID_W ex_flat" "(0::nat) < N_ANCHORS ex_cfg1"
    by (simp_all add: ex_flat_def ex_cfg1_def)
  note t = geometry_decode [OF ex_flat_decode h]
  have c1: "box_xy ex_flat 0 0 0 = (1 / 2, 1 / 2)"
    using t by (simp add: ex_flat_def sigmoid_def)
  have c2: "box_wh ex_cfg1 ex_flat 0 0 0 = (1, 2)"
    using t by (simp add: ex_flat_def ex_cfg1_def)
  show ?thesis using ex_flat_decode h c1 c2 by simp
qed

text \<open>
  C8: with anchors of non-negative width and height, every row \<open>(y1, x1, y2, x2)\<close> of the
  decoded \<open>boxes\<close> has \<open>x1 \<le> x2\<close> and \<open>y1 \<le> y2\<close>.
\<close>

theorem decoded_boxes_ordered:
  assumes "decode c p mode = Inr (boxes, scores, classes)"
    and "list_all (\<lambda>a. 0 \<le> fst a \<and> 0 \<le> snd a) (ANCHORS c)"
    and "(y1, x1, y2, x2) \<in> set boxes"
  shows "x1 \<le> x2 \<and> y1 \<le> y2"
proof -
  from assms(1,3) obtain i j k
    where ijk: "(i, j, k) \<in> set (cells (GRID_H p) (GRID_W p) (N_ANCHORS c))"
      and b: "(y1, x1, y2, x2) = boxes_at c p i j k"
    using decode_Inr(1) [OF assms(1)] by auto
  from ijk have "k < N_ANCHORS c" by (simp add: cells_set)
  with decode_Inr(6) [OF assms(1)] have "ANCHORS c ! k \<in> set (ANCHORS c)" by simp
  with assms(2) have a: "0 \<le> fst (ANCHORS c ! k)" "0 \<le> snd (ANCHORS c ! k)"
    by (simp_all add: list_all_iff)
  have w: "0 \<le> fst (box_wh c p i j k)" and h: "0 \<le> snd (box_wh c p i j k)"
    using a by (simp_all add: box_wh_cell)
  from b have "x1 = fst (box_xy p i j k) - fst (box_wh c p i j k) / 2"
    and "x2 = fst (box_xy p i j k) + fst (box_wh c p i j k) / 2"
    and "y1 = snd (box_xy p i j k) - snd (box_wh c p i j k) / 2"
    and "y2 = snd (box_xy p i j k) + snd (box_wh c p i j k) / 2"
    by (simp_all add: boxes_at_corners)
  with w h show ?thesis by simp
qed

theorem decoded_boxes_ordered_witness:
  "decode ex_cfg1 ex_flat 0 = Inr ([(- 1 / 2, 0, 3 / 2, 1)], [9 / 10], [0])
   \<and> list_all (\<lambda>a. 0 \<le> fst a \<and> 0 \<le> snd a) (ANCHORS ex_cfg1)
   \<and> (- 1 / 2, 0, 3 / 2, 1) \<in> set [(- 1 / 2, 0, 3 / 2, 1) :: box]
   \<and> (0::real) \<le> 1 \<and> (- 1 / 2 :: real) \<le> 3 / 2"
proof -
  have a: "list_all (\<lambda>a. 0 \<le> fst a \<and> 0 \<le> snd a) (ANCHORS ex_cfg1)"
    by (simp add: ex_cfg1_def)
  have m: "(- 1 / 2, 0, 3 / 2, 1) \<in> set [(- 1 / 2, 0, 3 / 2, 1) :: box]" by simp
  from decoded_boxes_ordered [OF ex_flat_decode a m] have "(0::real) \<le> 1 \<and> (- 1 / 2 :: real) \<le> 3 / 2" .
  with ex_flat_decode a m show ?thesis by (intro conjI) (rule ex_flat_decode, rule a, rule m, simp_all)
qed

subsection \<open>The detection filter\<close>

text \<open>
  C7: the filter keeps exactly the candidates whose best class score is at least the
  threshold, the three outputs stay aligned index by index (they are the three columns of the
  filtered list of triples), and filtering the result again at the same threshold changes
  nothing.
\<close>

theorem detection_filter_contract:
  assumes "length boxes = length scores" and "length classes = length scores"
    and "detection_filter t (boxes, scores, classes) = (bs, ss, cs)"
  shows "length bs = length ss \<and> length cs = length ss
       \<and> zip bs (zip ss cs) = filter (\<lambda>(b, s, c). t \<le> s) (zip boxes (zip scores classes))
       \<and> detection_filter t (bs, ss, cs) = (bs, ss, cs)"
  using detection_filter_props [OF assms] by blast

theorem detection_filter_contract_witness:
  "length [(0, 0, 1, 1), (0, 0, 2, 2) :: box] = length [3 / 10, 7 / 10 :: real]
   \<and> length [0, 1 :: int] = length [3 / 10, 7 / 10 :: real]
   \<and> detection_filter (1 / 2) ([(0, 0, 1, 1), (0, 0, 2, 2)], [3 / 10, 7 / 10], [0, 1])
        = ([(0, 0, 2, 2)], [7 / 10], [1])
   \<and> length [(0, 0, 2, 2) :: box] = length [7 / 10 :: real]
   \<and> length [1 :: int] = length [7 / 10 :: real]
   \<and> zip [(0, 0, 2, 2) :: box] (zip [7 / 10 :: real] [1 :: int])
        = filter (\<lambda>(b, s, c). 1 / 2 \<le> s)
            (zip [(0, 0, 1, 1), (0, 0, 2, 2)] (zip [3 / 10, 7 / 10] [0, 1]))
   \<and> detection_filter (1 / 2) ([(0, 0, 2, 2)], [7 / 10], [1]) = ([(0, 0, 2, 2)], [7 / 10], [1])"
proof -
  have l1: "length [(0, 0, 1, 1), (0, 0, 2, 2) :: box] = length [3 / 10, 7 / 10 :: real]"
    and l2: "length [0, 1 :: int] = length [3 / 10, 7 / 10 :: real]"
    by simp_all
  have f: "detection_filter (1 / 2) ([(0, 0, 1, 1), (0, 0, 2, 2)], [3 / 10, 7 / 10], [0, 1])
        = ([(0, 0, 2, 2)], [7 / 10], [1])"
    by (simp add: detection_filter_def prediction_mask_def boolean_mask_def)
  from detection_filter_contract [OF l1 l2 f] f show ?thesis by simp
qed

subsection \<open>Scaling to the image\<close>

lemma gather_subset: "set idx \<subseteq> {..<length xs} \<Longrightarrow> set (gather xs idx) \<subseteq> set xs"
  by (auto simp: gather_def)

text \<open>
  C9: the scaling multiplies the two y coordinates of a box by the height of the image that
  was passed to \<open>predict\<close> and the two x coordinates by its width; the normalized box
  \<open>x1 = 0.5, y1 = 0.5, x2 = 0.6, y2 = 0.6\<close> with height 200 and width 100 becomes
  \<open>x1 = 50, y1 = 100, x2 = 60, y2 = 120\<close>; and every box that \<open>predict\<close> returns is a
  filtered box scaled in this way.
\<close>

theorem rescale_by_image_dims:
  "scale_box (image_dims (height, width)) (y1, x1, y2, x2)
     = (y1 * real height, x1 * real width, y2 * real height, x2 * real width)
   \<and> scale_box (image_dims (200, 100)) (1 / 2, 1 / 2, 6 / 10, 6 / 10) = (100, 50, 120, 60)
   \<and> (filtered c p score_threshold mode = Inr (fb, fs, fc) \<longrightarrow>
        predict c p (height, width) iou_threshold score_threshold mode = Inr (bs, ss, cls) \<longrightarrow>
        set bs \<subseteq> scale_box (image_dims (height, width)) ` set fb)"
proof -
  have a: "scale_box (image_dims (height, width)) (y1, x1, y2, x2)
     = (y1 * real height, x1 * real width, y2 * real height, x2 * real width)"
    by (simp add: scale_box_def image_dims_def)
  have b: "scale_box (image_dims (200, 100)) (1 / 2, 1 / 2, 6 / 10, 6 / 10) = (100, 50, 120, 60)"
    by (simp add: scale_box_def image_dims_def)
  have c: "set bs \<subseteq> scale_box (image_dims (height, width)) ` set fb"
    if f: "filtered c p score_threshold mode = Inr (fb, fs, fc)"
      and pr: "predict c p (height, width) iou_threshold score_threshold mode = Inr (bs, ss, cls)"
  proof -
    let ?sb = "scale_boxes (height, width) fb"
    from pr f have "bs = gather ?sb (selected_indices ?sb fs 10 iou_threshold)"
      by (auto elim!: predict_stages)
    moreover have "set (selected_indices ?sb fs 10 iou_threshold) \<subseteq> {..<length ?sb}"
      using nms_index_in_range by auto
    ultimately have "set bs \<subseteq> set ?sb" using gather_subset by metis
    then show ?thesis by (simp add: scale_boxes_def)
  qed
  from a b c show ?thesis by blast
qed

theorem rescale_by_image_dims_witness:
  "scale_box (image_dims (200, 100)) (0, 0, 1, 1 / 2) = (0 * real 200, 0 * real 100, 1 * real 200, 1 / 2 * real 100)
   \<and> filtered ex_cfg ex_zero (1 / 2) 0 =
       Inr ([(0, 0, 1, 1 / 2), (0, 0, 1, 1 / 2), (0, 1 / 2, 1, 1), (0, 1 / 2, 1, 1)],
            [1 / 2, 1 / 2, 1 / 2, 1 / 2], [0, 0, 0, 0])
   \<and> predict ex_cfg ex_zero (200, 100) (1 / 2) (1 / 2) 0 =
       Inr ([(0, 0, 200, 50), (0, 50, 200, 100)], [1 / 2, 1 / 2], [- 1, - 1])
   \<and> set [(0, 0, 200, 50), (0, 50, 200, 100)] \<subseteq>
       scale_box (image_dims (200, 100)) `
         set [(0, 0, 1, 1 / 2), (0, 0, 1, 1 / 2), (0, 1 / 2, 1, 1), (0, 1 / 2, 1, 1)]"
  using rescale_by_image_dims [of 200 100 0 0 1 "1 / 2" ex_cfg ex_zero "1 / 2" 0
      "[(0, 0, 1, 1 / 2), (0, 0, 1, 1 / 2), (0, 1 / 2, 1, 1), (0, 1 / 2, 1, 1)]"
      "[1 / 2, 1 / 2, 1 / 2, 1 / 2]" "[0, 0, 0, 0]" "1 / 2"
      "[(0, 0, 200, 50), (0, 50, 200, 100)]" "[1 / 2, 1 / 2]" "[- 1, - 1]"]
    ex_zero_filtered ex_zero_predict
  by (simp add: scale_box_def image_dims_def)


subsection \<open>Non-maximum suppression in the pipeline\<close>

text \<open>
  C4: in the detections that \<open>predict\<close> returns, any two boxes at distinct positions have an
  Intersection-over-Union of at most the threshold passed as \<open>iou_threshold\<close>.
\<close>

theorem nms_survivors_separated:
  assumes "predict c p shape iou_threshold score_threshold mode = Inr (bs, ss, cls)"
    and "i < length bs" and "j < length bs" and "i \<noteq> j"
  shows "iou (bs ! i) (bs ! j) \<le> iou_threshold"
proof -
  from assms(1) obtain fb fs where
    "bs = gather (scale_boxes shape fb) (selected_indices (scale_boxes shape fb) fs 10 iou_threshold)"
    by (rule predict_stages)
  then have "sorted_wrt (\<lambda>a b. \<not> iou_threshold < iou a b) bs"
    by (simp add: nms_boxes_separated)
  then show ?thesis using assms(2,3,4) by (rule pairwise_iou_of_separated)
qed

theorem nms_survivors_separated_witness:
  "predict ex_cfg ex_zero (200, 100) (1 / 2) (1 / 2) 0 =
       Inr ([(0, 0, 200, 50), (0, 50, 200, 100)], [1 / 2, 1 / 2], [- 1, - 1])
   \<and> (0::nat) < length [(0, 0, 200, 50), (0, 50, 200, 100) :: box]
   \<and> (1::nat) < length [(0, 0, 200, 50), (0, 50, 200, 100) :: box]
   \<and> (0::nat) \<noteq> 1
   \<and> iou ([(0, 0, 200, 50), (0, 50, 200, 100)] ! 0) ([(0, 0, 200, 50), (0, 50, 200, 100)] ! 1) \<le> 1 / 2"
proof -
  have h: "(0::nat) < length [(0, 0, 200, 50), (0, 50, 200, 100) :: box]"
    "(1::nat) < length [(0, 0, 200, 50), (0, 50, 200, 100) :: box]" "(0::nat) \<noteq> 1"
    by simp_all
  from nms_survivors_separated [OF ex_zero_predict h] ex_zero_predict h show ?thesis
    by (intro conjI)
qed

text \<open>
  C6, as the code has it: \<open>predict\<close> returns at most as many detections as there are
  filtered candidates entering the suppression, and at most 10, the constant that line 144
  passes as the cap of the suppression, with one score and one class for each box. No
  argument of \<open>predict\<close> and no constant of the configuration enters this bound.
\<close>

theorem detections_bounded:
  assumes "nms_input c p shape score_threshold mode = Inr (ib, isc, icl)"
    and "predict c p shape iou_threshold score_threshold mode = Inr (bs, ss, cls)"
  shows "length bs \<le> length ib \<and> length bs \<le> 10
       \<and> length ss = length bs \<and> length cls = length bs"
proof -
  let ?idx = "selected_indices ib isc 10 iou_threshold"
  from assms have "bs = gather ib ?idx" "ss = gather isc ?idx"
    "cls = map (class_offset mode (HIER_TREE c)) (gather icl ?idx)"
    by (auto elim!: predict_stages)
  then have "length bs = length ?idx" "length ss = length ?idx" "length cls = length ?idx"
    by (simp_all add: gather_def)
  with nms_length [of ib isc 10 iou_threshold] show ?thesis by simp
qed

theorem detections_bounded_witness:
  "nms_input ex_cfg ex_zero (200, 100) (1 / 2) 0 =
       Inr ([(0, 0, 200, 50), (0, 0, 200, 50), (0, 50, 200, 100), (0, 50, 200, 100)],
            [1 / 2, 1 / 2, 1 / 2, 1 / 2], [0, 0, 0, 0])
   \<and> predict ex_cfg ex_zero (200, 100) (1 / 2) (1 / 2) 0 =
       Inr ([(0, 0, 200, 50), (0, 50, 200, 100)], [1 / 2, 1 / 2], [- 1, - 1])
   \<and> length [(0, 0, 200, 50), (0, 50, 200, 100) :: box]
       \<le> length [(0, 0, 200, 50), (0, 0, 200, 50), (0, 50, 200, 100), (0, 50, 200, 100) :: box]
   \<and> length [(0, 0, 200, 50), (0, 50, 200, 100) :: box] \<le> 10
   \<and> length [1 / 2, 1 / 2 :: real] = length [(0, 0, 200, 50), (0, 50, 200, 100) :: box]
   \<and> length [- 1, - 1 :: int] = length [(0, 0, 200, 50), (0, 50, 200, 100) :: box]"
  using detections_bounded [OF ex_zero_nms_input ex_zero_predict] ex_zero_nms_input ex_zero_predict
  by blast

text \<open>
  C6 as stated fails: under a configuration whose maximum-detections cap is 1, \<open>predict\<close>
  run on the all-zero sample with the constants of that configuration returns two detections.
\<close>

theorem configured_cap_counterexample:
  "constants ex_configuration = ex_cfg
   \<and> max_detections ex_configuration = 1
   \<and> predict (constants ex_configuration) ex_zero (200, 100) (1 / 2) (1 / 2) 0 =
       Inr ([(0, 0, 200, 50), (0, 50, 200, 100)], [1 / 2, 1 / 2], [- 1, - 1])
   \<and> \<not> length [(0, 0, 200, 50), (0, 50, 200, 100) :: box] \<le> max_detections ex_configuration"
  using ex_zero_predict by (simp add: ex_configuration_def)




subsection \<open>Flat scoring\<close>

lemma boolean_mask_subset: "set (boolean_mask xs m) \<subseteq> set xs"
  by (auto simp: boolean_mask_def dest: set_zip_leftD)

lemma boolean_mask_none:
  "\<forall>s \<in> set ss. \<not> t \<le> s \<Longrightarrow> boolean_mask xs (prediction_mask t ss) = []"
  by (auto simp: boolean_mask_def prediction_mask_def filter_empty_conv in_set_zip)

lemma gather_nms_subset:
  assumes "length xs = length boxes"
  shows "set (gather xs (selected_indices boxes scores n t)) \<subseteq> set xs"
  using assms nms_index_in_range [of _ boxes scores n t]
  by (intro gather_subset) auto

lemma predict_mode0:
  assumes "predict c p shape iou_threshold score_threshold 0 = Inr (bs, ss, cls)"
  shows "decode c p 0 =
           Inr (map (\<lambda>(i, j, k). boxes_at c p i j k) (cells (GRID_H p) (GRID_W p) (N_ANCHORS c)),
                map (\<lambda>(i, j, k). box_confidence p i j k) (cells (GRID_H p) (GRID_W p) (N_ANCHORS c)),
                map (\<lambda>x. 0) (cells (GRID_H p) (GRID_W p) (N_ANCHORS c)))"
    and "set ss \<subseteq> {s. score_threshold \<le> s}
                  \<inter> (\<lambda>(i, j, k). box_confidence p i j k) ` set (cells (GRID_H p) (GRID_W p) (N_ANCHORS c))"
    and "set cls \<subseteq> {- 1}"
proof -
  let ?ijk = "cells (GRID_H p) (GRID_W p) (N_ANCHORS c)"
  let ?boxes = "map (\<lambda>(i, j, k). boxes_at c p i j k) ?ijk"
  let ?scores = "map (\<lambda>(i, j, k). box_confidence p i j k) ?ijk"
  let ?classes = "map (\<lambda>x. 0::int) ?ijk"
  from assms obtain fb fs fc where
    f: "filtered c p score_threshold 0 = Inr (fb, fs, fc)"
    and r: "ss = gather fs (selected_indices (scale_boxes shape fb) fs 10 iou_threshold)"
      "cls = map (class_offset 0 (HIER_TREE c))
             (gather fc (selected_indices (scale_boxes shape fb) fs 10 iou_threshold))"
    by (rule predict_stages)
  from f obtain d where d: "decode c p 0 = Inr d" and fd: "detection_filter score_threshold d = (fb, fs, fc)"
    by (auto simp: filtered_def split: sum.splits)
  obtain b0 s0 c0 where d3: "d = (b0, s0, c0)" by (cases d)
  from d d3 have pos: "0 < GRID_H p" "0 < GRID_W p" "length (ANCHORS c) = N_ANCHORS c"
    by (auto dest: decode_Inr)
  from d have "0 < N_ANCHORS c"
    by (auto simp: decode_def split: if_splits)
  with pos have m0: "decode c p 0 = Inr (?boxes, ?scores, ?classes)"
    by (intro decode_mode0)
  then show "decode c p 0 = Inr (?boxes, ?scores, ?classes)" .
  from m0 d have dd: "d = (?boxes, ?scores, ?classes)" by simp
  have lens: "length ?boxes = length ?scores" "length ?classes = length ?scores" by simp_all
  from fd have fd': "detection_filter score_threshold (?boxes, ?scores, ?classes) = (fb, fs, fc)"
    by (simp add: dd)
  note props = detection_filter_props [OF lens fd']
  from props have fs: "fs = filter (\<lambda>s. score_threshold \<le> s) ?scores"
    and lb: "length fb = length fs" and lc: "length fc = length fs" by simp_all
  from fd' have "fc = boolean_mask ?classes (prediction_mask score_threshold ?scores)"
    by (simp add: detection_filter_def Let_def)
  then have fc: "set fc \<subseteq> {0}"
    using boolean_mask_subset [of ?classes "prediction_mask score_threshold ?scores"] by auto
  have "set ss \<subseteq> set fs"
    unfolding r using lb by (intro gather_nms_subset) (simp add: scale_boxes_def)
  then show "set ss \<subseteq> {s. score_threshold \<le> s} \<inter> (\<lambda>(i, j, k). box_confidence p i j k) ` set ?ijk"
    unfolding fs by auto
  have "set (gather fc (selected_indices (scale_boxes shape fb) fs 10 iou_threshold)) \<subseteq> set fc"
    using lb lc by (intro gather_nms_subset) (simp add: scale_boxes_def)
  with fc show "set cls \<subseteq> {- 1}"
    unfolding r by (auto simp: class_offset_def)
qed

text \<open>
  C1, as the code has it: in mode 0 the score vector of every grid cell and anchor has one
  entry, the objectness \<open>sigmoid\<close> of channel 4; the class logits are not used. So the best
  class index is 0 and the best score is the objectness for every cell and anchor, every
  returned score is the objectness of some cell and anchor and is at least the threshold,
  and every returned class id is \<open>- 1\<close>, the index 0 shifted by line 156.
\<close>

theorem flat_mode_scores:
  assumes "predict c p shape iou_threshold score_threshold 0 = Inr (bs, ss, cls)"
  shows "(\<exists>boxes. decode c p 0 =
            Inr (boxes,
                 map (\<lambda>(i, j, k). box_confidence p i j k) (cells (GRID_H p) (GRID_W p) (N_ANCHORS c)),
                 map (\<lambda>x. 0) (cells (GRID_H p) (GRID_W p) (N_ANCHORS c))))
       \<and> set ss \<subseteq> {s. score_threshold \<le> s}
                  \<inter> (\<lambda>(i, j, k). box_confidence p i j k) ` set (cells (GRID_H p) (GRID_W p) (N_ANCHORS c))
       \<and> set cls \<subseteq> {- 1}"
  using predict_mode0 [OF assms] by blast

theorem flat_mode_scores_witness:
  "predict ex_cfg1 ex_flat (200, 100) (1 / 2) (1 / 2) 0 = Inr ([(- 100, 0, 300, 100)], [9 / 10], [- 1])
   \<and> (\<exists>boxes. decode ex_cfg1 ex_flat 0 =
            Inr (boxes,
                 map (\<lambda>(i, j, k). box_confidence ex_flat i j k)
                   (cells (GRID_H ex_flat) (GRID_W ex_flat) (N_ANCHORS ex_cfg1)),
                 map (\<lambda>x. 0) (cells (GRID_H ex_flat) (GRID_W ex_flat) (N_ANCHORS ex_cfg1))))
   \<and> set [9 / 10] \<subseteq> {s. 1 / 2 \<le> s}
                  \<inter> (\<lambda>(i, j, k). box_confidence ex_flat i j k)
                      ` set (cells (GRID_H ex_flat) (GRID_W ex_flat) (N_ANCHORS ex_cfg1))
   \<and> set [- 1 :: int] \<subseteq> {- 1}"
  using flat_mode_scores [OF ex_flat_predict] ex_flat_predict by blast

lemma softmax_first_lt_1: "softmax [2, 1, 1 / 10] ! 0 < 1"
proof -
  let ?S = "exp (2::real) + exp 1 + exp (1 / 10)"
  have lt: "exp (2::real) < ?S"
    using exp_gt_zero [of "1::real"] exp_gt_zero [of "1 / 10 :: real"] by linarith
  have pos: "0 < ?S"
    using exp_gt_zero [of "2::real"] lt by linarith
  have "exp (2::real) / ?S < 1"
    using lt pos by (simp only: pos_divide_less_eq mult_1)
  then show ?thesis
    by (simp add: softmax_def add.assoc)
qed

text \<open>
  C1 as stated fails on the sample with objectness 0.9 and class logits 2.0, 1.0, 0.1: the
  returned class is \<open>- 1\<close>, not 0, and the returned score is 0.9, not 0.9 times the softmax
  of the first logit.
\<close>

theorem flat_scores_counterexample:
  "box_confidence ex_flat 0 0 0 = 9 / 10
   \<and> box_class_probs ex_cfg1 ex_flat 0 0 0 = [2, 1, 1 / 10]
   \<and> predict ex_cfg1 ex_flat (200, 100) (1 / 2) (1 / 2) 0 = Inr ([(- 100, 0, 300, 100)], [9 / 10], [- 1])
   \<and> (- 1 :: int) \<noteq> 0
   \<and> (9 / 10 :: real) \<noteq> 9 / 10 * (softmax [2, 1, 1 / 10] ! 0)"
proof -
  have a: "box_confidence ex_flat 0 0 0 = 9 / 10"
    by (simp add: box_confidence_def ex_flat_def sigmoid_def exp_minus)
  have b: "box_class_probs ex_cfg1 ex_flat 0 0 0 = [2, 1, 1 / 10]"
    by (simp add: box_class_probs_def ex_cfg1_def ex_flat_def upt_rec)
  have c: "(9 / 10 :: real) \<noteq> 9 / 10 * (softmax [2, 1, 1 / 10] ! 0)"
    using softmax_first_lt_1 by simp
  from a b c ex_flat_predict show ?thesis by simp
qed


subsection \<open>The all-zero tensor\<close>

lemma sigmoid_zero: "sigmoid 0 = 1 / 2"
  by (simp add: sigmoid_def)

lemma all_zero_cell:
  assumes "all_zero c p" and "(i, j, k) \<in> set (cells (GRID_H p) (GRID_W p) (N_ANCHORS c))"
  shows "box_confidence p i j k = 1 / 2"
    and "box_class_probs c p i j k = replicate (N_CLASSES c) 0"
proof -
  from assms have z: "\<forall>ch < N_CLASSES c + 5. netout p i j k ch = 0"
    by (auto simp: all_zero_def list_all_iff)
  then have "netout p i j k 4 = 0" by simp
  then show "box_confidence p i j k = 1 / 2"
    by (simp add: box_confidence_def sigmoid_zero)
  have "map (netout p i j k) [5..<5 + N_CLASSES c] = map (\<lambda>ch. 0) [5..<5 + N_CLASSES c]"
    using z by (intro map_cong) auto
  then show "box_class_probs c p i j k = replicate (N_CLASSES c) 0"
    by (simp add: box_class_probs_def map_replicate_const)
qed

lemma all_zero_scores:
  assumes "all_zero c p" and "x \<in> set (cells (GRID_H p) (GRID_W p) (N_ANCHORS c))"
  shows "(case x of (i, j, k) \<Rightarrow>
            box_scores mode tree (box_confidence p i j k) (box_class_probs c p i j k))
         = box_scores mode tree (1 / 2) (replicate (N_CLASSES c) 0)"
proof -
  obtain i j k where x: "x = (i, j, k)" by (cases x)
  with assms(2) have m: "(i, j, k) \<in> set (cells (GRID_H p) (GRID_W p) (N_ANCHORS c))" by simp
  show ?thesis
    unfolding x prod.case all_zero_cell [OF assms(1) m] ..
qed

lemma collect_error:
  "xs \<noteq> [] \<Longrightarrow> \<forall>x \<in> set xs. f x = Inl e \<Longrightarrow> collect f xs = Inl e"
  by (cases xs) simp_all

lemma cells_nonempty: "0 < H \<Longrightarrow> 0 < W \<Longrightarrow> 0 < A \<Longrightarrow> cells H W A \<noteq> []"
  using cells_length [of H W A] by auto

lemma decode_all_zero:
  assumes "all_zero c p"
    and "0 < GRID_H p" and "0 < GRID_W p" and "0 < N_ANCHORS c"
    and "length (ANCHORS c) = N_ANCHORS c"
    and "box_scores mode (HIER_TREE c) (1 / 2) (replicate (N_CLASSES c) 0) = Inr s"
    and "s \<noteq> []"
  shows "decode c p mode =
     Inr (map (\<lambda>(i, j, k). boxes_at c p i j k) (cells (GRID_H p) (GRID_W p) (N_ANCHORS c)),
          map (\<lambda>x. amax s) (cells (GRID_H p) (GRID_W p) (N_ANCHORS c)),
          map (\<lambda>x. int (argmax s)) (cells (GRID_H p) (GRID_W p) (N_ANCHORS c)))"
proof -
  let ?ijk = "cells (GRID_H p) (GRID_W p) (N_ANCHORS c)"
  have "collect (\<lambda>(i, j, k). box_scores mode (HIER_TREE c) (box_confidence p i j k)
            (box_class_probs c p i j k)) ?ijk = Inr (map (\<lambda>x. s) ?ijk)"
    using assms(6) all_zero_scores [OF assms(1)] by (intro collect_map) simp
  then show ?thesis using assms(2-5,7)
    by (simp add: decode_def Let_def comp_def image_iff)
qed

lemma decode_all_zero_error:
  assumes "all_zero c p"
    and "0 < GRID_H p" and "0 < GRID_W p" and "0 < N_ANCHORS c"
    and "length (ANCHORS c) = N_ANCHORS c"
    and "box_scores mode (HIER_TREE c) (1 / 2) (replicate (N_CLASSES c) 0) = Inl e"
  shows "decode c p mode = Inl e"
proof -
  let ?ijk = "cells (GRID_H p) (GRID_W p) (N_ANCHORS c)"
  have "collect (\<lambda>(i, j, k). box_scores mode (HIER_TREE c) (box_confidence p i j k)
            (box_class_probs c p i j k)) ?ijk = Inl e"
    using assms(6) all_zero_scores [OF assms(1)] cells_nonempty [OF assms(2-4)]
    by (intro collect_error) simp_all
  then show ?thesis using assms(2-5)
    by (simp add: decode_def Let_def)
qed

lemma predict_uniform:
  assumes d: "decode c p mode = Inr (boxes, map (\<lambda>x. v) ijk, classes)"
    and lens: "length boxes = length ijk" "length classes = length ijk"
    and ne: "ijk \<noteq> []"
    and t: "0 \<le> iou_threshold" "iou_threshold \<le> 1"
  shows "uniform_result (predict c p shape iou_threshold score_threshold mode) v score_threshold"
proof -
  let ?scores = "map (\<lambda>x. v) ijk"
  obtain fb fs fc where fd: "detection_filter score_threshold (boxes, ?scores, classes) = (fb, fs, fc)"
    by (cases "detection_filter score_threshold (boxes, ?scores, classes)")
  have l: "length boxes = length ?scores" "length classes = length ?scores"
    using lens by simp_all
  note props = detection_filter_props [OF l fd]
  from props have fs: "fs = filter (\<lambda>s. score_threshold \<le> s) ?scores"
    and lb: "length fb = length fs" and lc: "length fc = length fs" by simp_all
  let ?sb = "scale_boxes shape fb"
  let ?idx = "selected_indices ?sb fs 10 iou_threshold"
  have pr: "predict c p shape iou_threshold score_threshold mode =
      Inr (gather ?sb ?idx, gather fs ?idx, map (class_offset mode (HIER_TREE c)) (gather fc ?idx))"
    using d fd t by (simp add: predict_def nms_input_def filtered_def non_max_suppression_def)
  have "set (gather fs ?idx) \<subseteq> set fs"
    using lb by (intro gather_nms_subset) (simp add: scale_boxes_def)
  then have same: "set (gather fs ?idx) \<subseteq> {v}"
    unfolding fs by auto
  have low: "gather ?sb ?idx \<noteq> []" if "score_threshold \<le> v"
  proof -
    from that have "fs = ?scores" unfolding fs by simp
    with ne lb have "by_score ?sb fs \<noteq> []"
      using by_score_length [of ?sb fs] by (auto simp: scale_boxes_def)
    then have "nms_select iou_threshold 10 (by_score ?sb fs) \<noteq> []"
      by (intro nms_select_nonempty) simp_all
    then show ?thesis
      by (simp add: gather_def selected_indices_def)
  qed
  have high: "gather ?sb ?idx = []" if "v < score_threshold"
  proof -
    from that have "fs = []" unfolding fs by (simp add: filter_empty_conv)
    with lb have "by_score ?sb fs = []"
      using by_score_length [of ?sb fs] by simp
    then show ?thesis
      by (simp add: gather_def selected_indices_def nms_select_Nil)
  qed
  have "(gather ?sb ?idx = []) = (v < score_threshold)"
    using low high by (cases "v < score_threshold") auto
  with same show ?thesis
    by (simp add: uniform_result_def pr gather_def)
qed

lemma amax_replicate: "0 < m \<Longrightarrow> amax (replicate m v) = v"
proof -
  have "fold max (replicate n v) v = v" for n
    by (induction n) simp_all
  moreover assume "0 < m"
  then obtain n where "m = Suc n" by (cases m) auto
  ultimately show ?thesis by (simp add: amax_def)
qed

lemma py_slice_replicate:
  "py_slice (replicate n x) a b = replicate (length (py_slice (replicate n x) a b)) x"
  by (simp add: py_slice_def Let_def)

lemma softmax_zeros: "softmax (replicate m 0) = replicate m (1 / real m)"
  by (simp add: softmax_def sum_list_replicate)

lemma level_scores_zeros:
  assumes "first_child_id tree = Inr i"
    and "m = length (py_slice (replicate n (0::real)) i (i + int (length (children tree))))"
  shows "level_scores tree (1 / 2) (replicate n 0) = Inr (replicate m (1 / (2 * real m)))"
proof -
  have "py_slice (replicate n (0::real)) i (i + int (length (children tree))) = replicate m 0"
    using py_slice_replicate [of n "0::real" i "i + int (length (children tree))"] assms(2) by simp
  then show ?thesis
    using assms(1) by (simp add: level_scores_def softmax_zeros)
qed


lemma decode_all_zero_empty:
  assumes "all_zero c p"
    and "0 < GRID_H p" and "0 < GRID_W p" and "0 < N_ANCHORS c"
    and "length (ANCHORS c) = N_ANCHORS c"
    and "box_scores mode (HIER_TREE c) (1 / 2) (replicate (N_CLASSES c) 0) = Inr []"
  shows "decode c p mode = Inl InvalidArgumentError"
proof -
  let ?ijk = "cells (GRID_H p) (GRID_W p) (N_ANCHORS c)"
  have "collect (\<lambda>(i, j, k). box_scores mode (HIER_TREE c) (box_confidence p i j k)
            (box_class_probs c p i j k)) ?ijk = Inr (map (\<lambda>x. []) ?ijk)"
    using assms(6) all_zero_scores [OF assms(1)] by (intro collect_map) simp
  moreover have "[] \<in> set (map (\<lambda>x. []::real list) ?ijk)"
    using cells_nonempty [OF assms(2-4)] by (cases ?ijk) simp_all
  ultimately show ?thesis using assms(2-5)
    by (simp add: decode_def Let_def del: set_map)
qed

lemma predict_decode_error: "decode c p mode = Inl e \<Longrightarrow> predict c p shape t s mode = Inl e"
  by (simp add: predict_def nms_input_def filtered_def)

text \<open>
  C3, as the code has it: take a tensor whose values are all zero, a non-empty grid, an
  anchor list of the configured size and an IoU threshold in \<open>[0, 1]\<close>. Every grid cell and
  anchor then gets the same score vector, the one the mode computes from objectness 1/2 and
  zero logits. If that computation fails, or its vector is empty, \<open>predict\<close> raises;
  otherwise it does not raise, every returned score is the largest entry of the vector, and
  the result is empty exactly when the score threshold exceeds that entry. In mode 0 the
  entry is 1/2, so a threshold of 0.5 keeps every candidate and the result is not empty; in
  mode 1 the entry is \<open>1 / (2 m)\<close> for the \<open>m\<close> logits of the root's children, so with
  \<open>m \<ge> 2\<close> a threshold of 0.5 gives the empty result.
\<close>

theorem zero_tensor_decode:
  assumes "all_zero c p"
    and "0 < GRID_H p" and "0 < GRID_W p" and "0 < N_ANCHORS c"
    and "length (ANCHORS c) = N_ANCHORS c"
    and "0 \<le> iou_threshold" and "iou_threshold \<le> 1"
  shows "(\<forall>s. box_scores mode (HIER_TREE c) (1 / 2) (replicate (N_CLASSES c) 0) = Inr s \<longrightarrow> s \<noteq> [] \<longrightarrow>
            uniform_result (predict c p shape iou_threshold score_threshold mode) (amax s) score_threshold)
       \<and> (\<forall>e. box_scores mode (HIER_TREE c) (1 / 2) (replicate (N_CLASSES c) 0) = Inl e \<longrightarrow>
            predict c p shape iou_threshold score_threshold mode = Inl e)
       \<and> (box_scores mode (HIER_TREE c) (1 / 2) (replicate (N_CLASSES c) 0) = Inr [] \<longrightarrow>
            predict c p shape iou_threshold score_threshold mode = Inl InvalidArgumentError)
       \<and> uniform_result (predict c p shape iou_threshold score_threshold 0) (1 / 2) score_threshold
       \<and> (\<forall>i m. first_child_id (HIER_TREE c) = Inr i \<longrightarrow>
            m = length (py_slice (replicate (N_CLASSES c) (0::real)) i
                          (i + int (length (children (HIER_TREE c))))) \<longrightarrow>
            0 < m \<longrightarrow>
            uniform_result (predict c p shape iou_threshold score_threshold 1)
              (1 / (2 * real m)) score_threshold)"
proof -
  let ?ijk = "cells (GRID_H p) (GRID_W p) (N_ANCHORS c)"
  let ?zeros = "replicate (N_CLASSES c) (0::real)"
  have ne: "?ijk \<noteq> []" by (rule cells_nonempty [OF assms(2-4)])
  have gen: "uniform_result (predict c p shape iou_threshold score_threshold md) (amax s) score_threshold"
    if "box_scores md (HIER_TREE c) (1 / 2) ?zeros = Inr s" and "s \<noteq> []" for md s
    by (rule predict_uniform [OF decode_all_zero [OF assms(1-5) that] _ _ ne assms(6,7)]) simp_all
  have err: "predict c p shape iou_threshold score_threshold mode = Inl e"
    if "box_scores mode (HIER_TREE c) (1 / 2) ?zeros = Inl e" for e
    using decode_all_zero_error [OF assms(1-5) that] by (rule predict_decode_error)
  have emp: "predict c p shape iou_threshold score_threshold mode = Inl InvalidArgumentError"
    if "box_scores mode (HIER_TREE c) (1 / 2) ?zeros = Inr []"
    using decode_all_zero_empty [OF assms(1-5) that] by (rule predict_decode_error)
  have m0: "uniform_result (predict c p shape iou_threshold score_threshold 0) (1 / 2) score_threshold"
    using gen [of 0 "[1 / 2]"] by (simp add: box_scores_def amax_def)
  have m1: "uniform_result (predict c p shape iou_threshold score_threshold 1)
              (1 / (2 * real m)) score_threshold"
    if f: "first_child_id (HIER_TREE c) = Inr i"
      and m: "m = length (py_slice ?zeros i (i + int (length (children (HIER_TREE c)))))"
      and pos: "0 < m" for i m
  proof -
    have "box_scores 1 (HIER_TREE c) (1 / 2) ?zeros = Inr (replicate m (1 / (2 * real m)))"
      using level_scores_zeros [OF f m] by (simp add: box_scores_def)
    moreover have "replicate m (1 / (2 * real m)) \<noteq> []" using pos by simp
    ultimately have "uniform_result (predict c p shape iou_threshold score_threshold 1)
        (amax (replicate m (1 / (2 * real m)))) score_threshold"
      by (rule gen)
    then show ?thesis using pos by (simp add: amax_replicate)
  qed
  from gen err emp m0 m1 show ?thesis by blast
qed

lemma uniform_result_empty:
  "uniform_result r v t \<Longrightarrow> v < t \<Longrightarrow> r = Inr ([], [], [])"
  by (auto simp: uniform_result_def split: sum.splits)

theorem zero_tensor_decode_witness:
  "all_zero ex_cfg3 ex_zero
   \<and> 0 < GRID_H ex_zero \<and> 0 < GRID_W ex_zero \<and> 0 < N_ANCHORS ex_cfg3
   \<and> length (ANCHORS ex_cfg3) = N_ANCHORS ex_cfg3
   \<and> (0::real) \<le> 1 / 2 \<and> (1 / 2 :: real) \<le> 1
   \<and> uniform_result (predict ex_cfg3 ex_zero (200, 100) (1 / 2) (1 / 2) 0) (1 / 2) (1 / 2)
   \<and> first_child_id (HIER_TREE ex_cfg3) = Inr 0
   \<and> (3::nat) = length (py_slice (replicate (N_CLASSES ex_cfg3) (0::real)) 0
                     (0 + int (length (children (HIER_TREE ex_cfg3)))))
   \<and> uniform_result (predict ex_cfg3 ex_zero (200, 100) (1 / 2) (1 / 2) 1) (1 / (2 * real 3)) (1 / 2)
   \<and> predict ex_cfg3 ex_zero (200, 100) (1 / 2) (1 / 2) 1 = Inr ([], [], [])"
proof -
  have z: "all_zero ex_cfg3 ex_zero"
    by (simp add: all_zero_def ex_zero_def list_all_iff)
  have h: "0 < GRID_H ex_zero" "0 < GRID_W ex_zero" "0 < N_ANCHORS ex_cfg3"
    "length (ANCHORS ex_cfg3) = N_ANCHORS ex_cfg3"
    by (simp_all add: ex_zero_def ex_cfg3_def)
  have t: "(0::real) \<le> 1 / 2" "(1 / 2 :: real) \<le> 1" by simp_all
  have f: "first_child_id (HIER_TREE ex_cfg3) = Inr 0"
    by (simp add: first_child_id_def ex_cfg3_def)
  have m: "(3::nat) = length (py_slice (replicate (N_CLASSES ex_cfg3) (0::real)) 0
                     (0 + int (length (children (HIER_TREE ex_cfg3)))))"
    by (simp add: py_slice_def ex_cfg3_def)
  note th = zero_tensor_decode [OF z h t, of 1 "(200, 100)" "1 / 2"]
  have a: "uniform_result (predict ex_cfg3 ex_zero (200, 100) (1 / 2) (1 / 2) 0) (1 / 2) (1 / 2)"
    by (rule th [THEN conjunct2, THEN conjunct2, THEN conjunct2, THEN conjunct1])
  have b: "uniform_result (predict ex_cfg3 ex_zero (200, 100) (1 / 2) (1 / 2) 1)
      (1 / (2 * real 3)) (1 / 2)"
    by (rule th [THEN conjunct2, THEN conjunct2, THEN conjunct2, THEN conjunct2, rule_format, OF f m])
      simp
  from b have c: "predict ex_cfg3 ex_zero (200, 100) (1 / 2) (1 / 2) 1 = Inr ([], [], [])"
    by (rule uniform_result_empty) simp
  from z h t f m a b c show ?thesis by (intro conjI)
qed

text \<open>
  C3 as stated fails: the all-zero sample, decoded in the default mode 0 with threshold 0.5,
  gives two detections.
\<close>

theorem zero_tensor_counterexample:
  "all_zero ex_cfg ex_zero
   \<and> predict ex_cfg ex_zero (200, 100) (1 / 2) (1 / 2) 0 =
       Inr ([(0, 0, 200, 50), (0, 50, 200, 100)], [1 / 2, 1 / 2], [- 1, - 1])
   \<and> [(0, 0, 200, 50), (0, 50, 200, 100) :: box] \<noteq> []"
  using ex_zero_predict by (simp add: all_zero_def ex_zero_def list_all_iff)

subsection \<open>The guards of \<open>load_lisa_data\<close>\<close>

lemma getitem_error: "getitem df name = Inl e \<Longrightarrow> \<exists>n. e = KeyError n"
  by (auto simp: getitem_def split: option.splits)

lemma loc_cols_error: "loc_cols df a b = Inl e \<Longrightarrow> \<exists>n. e = KeyError n"
  by (auto simp: loc_cols_def Let_def split: if_splits)

lemma select_cols_error: "select_cols frames names = Inl e \<Longrightarrow> \<exists>n. e = KeyError n"
  by (induction names arbitrary: e) (auto split: if_splits sum.splits)

lemma read_frames_error:
  "fst (read_frames w path fls) = Inl e \<Longrightarrow> e = ParserError \<or> (\<exists>n. e = KeyError n)"
proof (induction fls arbitrary: e)
  case Nil
  then show ?case by simp
next
  case (Cons fl fls)
  then show ?case
    by (auto split: option.splits sum.splits prod.splits
        dest: getitem_error loc_cols_error)
qed

lemma load_lisa_data_dir_error:
  assumes "isdir w pth" and "fst (load_lisa_data w (Some pth)) = Inl e"
  shows "e = ParserError \<or> (\<exists>n. e = KeyError n) \<or> e = ValueError ''No objects to concatenate''"
proof (cases "read_frames w pth (glob w (pth @ ''*.csv''))")
  case (Pair r tr)
  show ?thesis
  proof (cases r)
    case (Inl e')
    with Pair assms have "e = e'" by (simp add: load_lisa_data_def)
    moreover from Pair Inl have "fst (read_frames w pth (glob w (pth @ ''*.csv''))) = Inl e'" by simp
    ultimately show ?thesis using read_frames_error by blast
  next
    case (Inr xy)
    obtain X Y where xy: "xy = (X, Y)" by (cases xy)
    show ?thesis
    proof (cases "X = []")
      case True
      with Pair Inr xy assms show ?thesis by (simp add: load_lisa_data_def)
    next
      case False
      let ?names = "[''Upper left corner X'', ''Upper left corner Y'',
                     ''Lower right corner X'', ''Lower right corner Y'', ''Annotation tag'']"
      show ?thesis
      proof (cases "select_cols Y ?names")
        case (Inl e')
        with False Pair Inr xy assms have "e = e'"
          by (simp add: load_lisa_data_def del: select_cols.simps)
        with select_cols_error [OF Inl] show ?thesis by blast
      next
        case (Inr ycols)
        with False Pair \<open>r = Inr xy\<close> xy assms have False
          by (simp add: load_lisa_data_def del: select_cols.simps)
        then show ?thesis ..
      qed
    qed
  qed
qed

text \<open>
  C10: called with \<open>None\<close>, \<open>load_lisa_data\<close> raises the ValueError of line 26, and called
  with a path that is not an existing directory it raises the IOError of line 29, in both
  cases with no file read; called with an existing directory it raises neither of the two.
\<close>

theorem load_lisa_data_guards:
  "load_lisa_data w None = (Inl (ValueError ''Please setup correct path to to data set''), [])
   \<and> (\<not> isdir w pth \<longrightarrow>
        load_lisa_data w (Some pth) = (Inl (IOError ''Path does not exist''), []))
   \<and> (isdir w pth \<longrightarrow>
        fst (load_lisa_data w (Some pth)) \<noteq> Inl (ValueError ''Please setup correct path to to data set'')
      \<and> fst (load_lisa_data w (Some pth)) \<noteq> Inl (IOError ''Path does not exist''))"
proof -
  have a: "load_lisa_data w None = (Inl (ValueError ''Please setup correct path to to data set''), [])"
    by (simp add: load_lisa_data_def)
  have b: "load_lisa_data w (Some pth) = (Inl (IOError ''Path does not exist''), [])" if "\<not> isdir w pth"
    using that by (simp add: load_lisa_data_def)
  have c: "fst (load_lisa_data w (Some pth)) \<noteq> Inl (ValueError ''Please setup correct path to to data set'')
      \<and> fst (load_lisa_data w (Some pth)) \<noteq> Inl (IOError ''Path does not exist'')" if d: "isdir w pth"
  proof -
    have "e \<noteq> ValueError ''Please setup correct path to to data set'' \<and> e \<noteq> IOError ''Path does not exist''"
      if "fst (load_lisa_data w (Some pth)) = Inl e" for e
      using load_lisa_data_dir_error [OF d that] by auto
    then show ?thesis by blast
  qed
  from a b c show ?thesis by blast
qed

lemma ex_world_load:
  "load_lisa_data ex_world (Some ''data/'') =
     (Inr ([Some ''data/a.png''],
           [(''Upper left corner X'', [Some ''1'']), (''Upper left corner Y'', [Some ''2'']),
            (''Lower right corner X'', [Some ''3'']), (''Lower right corner Y'', [Some ''4'']),
            (''Annotation tag'', [Some ''stop''])]),
      [''data/a.csv''])"
  by (simp add: load_lisa_data_def ex_world_def ex_frame_def getitem_def loc_cols_def concat_col_def)

theorem load_lisa_data_guards_witness:
  "load_lisa_data ex_world None = (Inl (ValueError ''Please setup correct path to to data set''), [])
   \<and> \<not> isdir ex_world ''images/''
   \<and> load_lisa_data ex_world (Some ''images/'') = (Inl (IOError ''Path does not exist''), [])
   \<and> isdir ex_world ''data/''
   \<and> fst (load_lisa_data ex_world (Some ''data/''))
        \<noteq> Inl (ValueError ''Please setup correct path to to data set'')
   \<and> fst (load_lisa_data ex_world (Some ''data/'')) \<noteq> Inl (IOError ''Path does not exist'')
   \<and> snd (load_lisa_data ex_world (Some ''data/'')) = [''data/a.csv'']"
proof -
  have n: "\<not> isdir ex_world ''images/''" and d: "isdir ex_world ''data/''"
    by (simp_all add: ex_world_def)
  from load_lisa_data_guards [of ex_world "''images/''"] load_lisa_data_guards [of ex_world "''data/''"]
    n d ex_world_load
  show ?thesis by simp
qed

end
